theory Spec2Isabelle
  imports Complex_Main
begin

section \<open>Python values used by the progress core\<close>

text \<open>
  The adaptive-difficulty and progress-persistence core lives in
  \<^verbatim>\<open>src/core/game_manager.py\<close> (classes \<^verbatim>\<open>GameProgress\<close> and \<^verbatim>\<open>GameManager\<close>) and reads
  \<^verbatim>\<open>ADAPTIVE_SETTINGS\<close> from \<^verbatim>\<open>src/config.py\<close>. Python integers are unbounded and are
  modelled as \<open>int\<close>. Every exception the modelled code can raise is a value of
  \<open>py_error\<close>; a function that can raise returns \<open>py_error + 'a\<close>. A raised exception
  abandons the call: the partially mutated object state is not observed by the model.
\<close>

datatype py_error = KeyError | AttributeError | OverflowError | ZeroDivisionError

definition key :: "'a option \<Rightarrow> py_error + 'a" where
  \<comment> \<open>\<^verbatim>\<open>d[k]\<close> on a dict whose entry for \<^verbatim>\<open>k\<close> is the given option\<close>
  "key v = (case v of None \<Rightarrow> Inl KeyError | Some x \<Rightarrow> Inr x)"

definition bind_err :: "py_error + 'a \<Rightarrow> ('a \<Rightarrow> py_error + 'b) \<Rightarrow> py_error + 'b" where
  \<comment> \<open>sequencing: the first exception raised propagates\<close>
  "bind_err m f = (case m of Inl e \<Rightarrow> Inl e | Inr x \<Rightarrow> f x)"

subsection \<open>Binary64 floating point\<close>

text \<open>
  Python's \<^verbatim>\<open>float\<close> is IEEE-754 binary64. A finite float is represented by the rational
  number it denotes; \<open>round_double\<close> rounds an exact rational result to the nearest
  representable value (53-bit significand, ties to even, gradual underflow below
  \<open>2 ^ -1022\<close>). A rounded magnitude of \<open>2 ^ 1024\<close> or more is an overflow.
\<close>

function bit_length :: "int \<Rightarrow> int" where
  "bit_length n = (if n \<le> 0 then 0 else 1 + bit_length (n div 2))"
  by pat_completeness auto
termination
  by (relation "measure nat") auto

declare bit_length.simps [simp del]

definition pow2 :: "int \<Rightarrow> rat" where
  "pow2 k = (if 0 \<le> k then 2 ^ nat k else 1 / 2 ^ nat (- k))"

definition floor_log2 :: "rat \<Rightarrow> int" where
  \<comment> \<open>for \<open>q > 0\<close>: the integer \<open>k\<close> with \<open>2 ^ k \<le> q < 2 ^ (k + 1)\<close>\<close>
  "floor_log2 q =
     (if 1 \<le> q then bit_length \<lfloor>q\<rfloor> - 1
      else - bit_length (\<lceil>1 / q\<rceil> - 1))"

definition round_half_even :: "rat \<Rightarrow> int" where
  "round_half_even m =
     (let f = \<lfloor>m\<rfloor>; r = m - of_int f
      in if r < 1 / 2 then f else if 1 / 2 < r then f + 1
         else if even f then f else f + 1)"

definition round_double :: "rat \<Rightarrow> rat" where
  "round_double q =
     (if q = 0 then 0
      else let e = max (floor_log2 \<bar>q\<bar> - 52) (- 1074);
               n = round_half_even (\<bar>q\<bar> / pow2 e)
           in sgn q * of_int n * pow2 e)"

definition float_finite :: "rat \<Rightarrow> bool" where
  \<comment> \<open>the bound is \<open>2 ^ 1024\<close>, written so that it evaluates in few steps\<close>
  "float_finite r = (\<bar>r\<bar> < (2 ^ 32) ^ 32)"

definition py_truediv :: "int \<Rightarrow> int \<Rightarrow> py_error + rat" where
  \<comment> \<open>\<^verbatim>\<open>a / b\<close> on two ints: the correctly rounded quotient\<close>
  "py_truediv a b =
     (if b = 0 then Inl ZeroDivisionError
      else let r = round_double (of_int a / of_int b)
           in if float_finite r then Inr r else Inl OverflowError)"

definition float_of_int :: "int \<Rightarrow> py_error + rat" where
  \<comment> \<open>the implicit conversion of an int operand in mixed int/float arithmetic\<close>
  "float_of_int i =
     (let r = round_double (of_int i)
      in if float_finite r then Inr r else Inl OverflowError)"

definition float_lit :: "rat \<Rightarrow> rat" where
  \<comment> \<open>a decimal literal such as \<^verbatim>\<open>0.1\<close>: the float nearest to the decimal\<close>
  "float_lit q = round_double q"

definition int_of_float :: "rat \<Rightarrow> int" where
  \<comment> \<open>\<^verbatim>\<open>int(x)\<close> on a finite float truncates toward zero\<close>
  "int_of_float x = (if 0 \<le> x then \<lfloor>x\<rfloor> else \<lceil>x\<rceil>)"

definition py_last_n :: "nat \<Rightarrow> 'a list \<Rightarrow> 'a list" where
  \<comment> \<open>the slice \<^verbatim>\<open>xs[-n:]\<close> for a positive \<^verbatim>\<open>n\<close>\<close>
  "py_last_n n xs = drop (length xs - n) xs"

section \<open>Data model\<close>

text \<open>
  The profile is the JSON object kept in \<^verbatim>\<open>GameProgress.data\<close>. A dict is a record of
  its known keys, each an \<open>option\<close> (\<open>None\<close>: the key is absent), or a map where the keys
  are game-type ids. Timestamps stand for \<^verbatim>\<open>datetime.now()\<close> and are counted in
  microseconds; the values stored under the known keys are taken to have the JSON types
  that the program itself writes.
\<close>

type_synonym timestamp = int

record history_entry =
  he_timestamp :: timestamp
  he_won :: bool
  he_score :: int
  he_time_taken :: rat
  he_difficulty :: int
  he_details :: "(string \<times> string) list option"

record game_data =
  level :: "int option"
  games_played :: "int option"
  games_won :: "int option"
  current_difficulty :: "int option"
  history :: "history_entry list option"

record profile =
  player_name :: "string option"
  created_at :: "timestamp option"
  total_coins :: "int option"
  total_stars :: "int option"
  games :: "(string \<rightharpoonup> game_data) option"
  achievements :: "string list option"
  daily_streak :: "int option"
  last_played :: "timestamp option"
  birth_date :: "string option"
  difficulty_settings :: "(string \<rightharpoonup> int) option"

text \<open>
  What \<^verbatim>\<open>json.load\<close> can return for the save file: a JSON object, or some other JSON
  value. The save file itself is absent, unreadable (any error while opening or
  parsing), or holds a JSON value.
\<close>

datatype loaded = Dict profile | Not_dict

datatype file_state = No_file | Unreadable | Json loaded

record game_progress =
  data :: profile
  save_file :: file_state

record session =
  cg_type :: string
  cg_start_time :: timestamp
  cg_score :: int
  cg_completed :: bool

record game_manager =
  progress :: game_progress
  current_game :: "session option"
  sound_enabled :: bool
  music_enabled :: bool

section \<open>config.py: ADAPTIVE_SETTINGS\<close>

definition min_games_before_adjust :: nat where
  "min_games_before_adjust = 5"

definition difficulty_increase_threshold :: rat where
  "difficulty_increase_threshold = float_lit (85 / 100)"

definition difficulty_decrease_threshold :: rat where
  "difficulty_decrease_threshold = float_lit (55 / 100)"

section \<open>GameProgress\<close>

definition new_game_data :: game_data where
  \<comment> \<open>the zeroed record written for a game type (lines 32-38, 119-125)\<close>
  "new_game_data =
     \<lparr>level = Some 1, games_played = Some 0, games_won = Some 0,
      current_difficulty = Some 1, history = Some []\<rparr>"

definition default_games :: "string \<rightharpoonup> game_data" where
  "default_games =
     [''find_difference'' \<mapsto> new_game_data, ''counting'' \<mapsto> new_game_data,
      ''simple_math'' \<mapsto> new_game_data, ''music_theory'' \<mapsto> new_game_data,
      ''staff_reading'' \<mapsto> new_game_data, ''rhythm'' \<mapsto> new_game_data,
      ''interval'' \<mapsto> new_game_data]"

definition default_data :: "timestamp \<Rightarrow> profile" where
  \<comment> \<open>the default structure of \<^verbatim>\<open>_load_progress\<close> (lines 26-85); the player name is a
      fixed non-ASCII literal in the source, here an opaque constant string\<close>
  "default_data now =
     \<lparr>player_name = Some ''xiao peng you'', created_at = Some now,
      total_coins = Some 0, total_stars = Some 0, games = Some default_games,
      achievements = Some [], daily_streak = Some 0, last_played = Some now,
      birth_date = None, difficulty_settings = None\<rparr>"

definition load_progress :: "file_state \<Rightarrow> timestamp \<Rightarrow> loaded" where
  "load_progress f now =
     (case f of Json v \<Rightarrow> v | _ \<Rightarrow> Dict (default_data now))"

definition save_progress :: "game_progress \<Rightarrow> timestamp \<Rightarrow> game_progress" where
  "save_progress gp now =
     (let d = (data gp)\<lparr>last_played := Some now\<rparr>
      in gp\<lparr>data := d, save_file := Json (Dict d)\<rparr>)"

definition migrated_game_data :: "game_data \<Rightarrow> game_data" where
  \<comment> \<open>the record derived from \<^verbatim>\<open>music_data\<close> (lines 108-114)\<close>
  "migrated_game_data music_data =
     \<lparr>level = Some (case level music_data of None \<Rightarrow> 1 | Some l \<Rightarrow> l),
      games_played = Some ((case games_played music_data of None \<Rightarrow> 0 | Some n \<Rightarrow> n) div 3),
      games_won = Some ((case games_won music_data of None \<Rightarrow> 0 | Some n \<Rightarrow> n) div 3),
      current_difficulty =
        Some (case current_difficulty music_data of None \<Rightarrow> 1 | Some c \<Rightarrow> c),
      history = Some []\<rparr>"

definition add_if_missing ::
  "game_data \<Rightarrow> string \<Rightarrow> (string \<rightharpoonup> game_data) \<Rightarrow> (string \<rightharpoonup> game_data)" where
  \<comment> \<open>one iteration of the \<^verbatim>\<open>for\<close> statements of lines 106-114 and 117-125\<close>
  "add_if_missing v game_type gs = (if gs game_type = None then gs(game_type \<mapsto> v) else gs)"

definition newest_game_types :: "string list" where
  \<comment> \<open>the list that both \<^verbatim>\<open>for\<close> statements of \<^verbatim>\<open>_migrate_data\<close> run over (lines 106, 117)\<close>
  "newest_game_types = [''staff_reading'', ''rhythm'', ''interval'']"

definition migrate_data :: "game_progress \<Rightarrow> timestamp \<Rightarrow> game_progress" where
  \<comment> \<open>\<^verbatim>\<open>games = self.data.get('games', {})\<close>: when the key is absent the method fills a
      fresh dict that is never stored in \<^verbatim>\<open>self.data\<close>\<close>
  "migrate_data gp now =
     (let gs = (case games (data gp) of None \<Rightarrow> Map.empty | Some g \<Rightarrow> g)
      in if gs ''staff_reading'' \<noteq> None \<and> gs ''rhythm'' \<noteq> None \<and> gs ''interval'' \<noteq> None
         then gp
         else
           let v = (case gs ''music_theory'' of
                      Some music_data \<Rightarrow> migrated_game_data music_data
                    | None \<Rightarrow> new_game_data);
               gs' = fold (add_if_missing v) newest_game_types gs;
               d = (case games (data gp) of
                      None \<Rightarrow> data gp
                    | Some _ \<Rightarrow> (data gp)\<lparr>games := Some gs'\<rparr>)
           in save_progress (gp\<lparr>data := d\<rparr>) now)"

definition init_progress :: "file_state \<Rightarrow> timestamp \<Rightarrow> py_error + game_progress" where
  \<comment> \<open>\<^verbatim>\<open>GameProgress.__init__\<close>; \<^verbatim>\<open>.get\<close> on a value that is not a dict raises\<close>
  "init_progress f now =
     (case load_progress f now of
        Not_dict \<Rightarrow> Inl AttributeError
      | Dict p \<Rightarrow> Inr (migrate_data \<lparr>data = p, save_file = f\<rparr> now))"

definition game_lookup :: "profile \<Rightarrow> string \<Rightarrow> py_error + game_data" where
  \<comment> \<open>\<^verbatim>\<open>self.data['games'][game_type]\<close>\<close>
  "game_lookup p game_type = bind_err (key (games p)) (\<lambda>gs. key (gs game_type))"

definition game_store :: "game_progress \<Rightarrow> string \<Rightarrow> game_data \<Rightarrow> game_progress" where
  \<comment> \<open>the effect of mutating the dict \<^verbatim>\<open>self.data['games'][game_type]\<close> in place\<close>
  "game_store gp game_type gd =
     gp\<lparr>data := (data gp)\<lparr>games := map_option (\<lambda>gs. gs(game_type \<mapsto> gd)) (games (data gp))\<rparr>\<rparr>"

definition adjust_record :: "game_data \<Rightarrow> py_error + game_data" where
  \<comment> \<open>lines 164-183 on the dict \<^verbatim>\<open>game_data\<close>, the only object the method touches;
      the \<^verbatim>\<open>print\<close> calls are left out\<close>
  "adjust_record gd =
     bind_err (key (history gd)) (\<lambda>hist.
       if length hist < min_games_before_adjust then Inr gd
       else
         let recent_games = py_last_n min_games_before_adjust hist
         in bind_err (py_truediv (int (length (filter he_won recent_games)))
                                 (int (length recent_games))) (\<lambda>success_rate.
            bind_err (key (current_difficulty gd)) (\<lambda>cur.
              if difficulty_increase_threshold \<le> success_rate
              then Inr (gd\<lparr>current_difficulty := Some (min (cur + 1) 10)\<rparr>)
              else if success_rate \<le> difficulty_decrease_threshold
              then Inr (gd\<lparr>current_difficulty := Some (max (cur - 1) 1)\<rparr>)
              else Inr gd)))"

definition adjust_difficulty :: "game_progress \<Rightarrow> string \<Rightarrow> py_error + game_progress" where
  "adjust_difficulty gp game_type =
     bind_err (game_lookup (data gp) game_type) (\<lambda>gd.
     bind_err (adjust_record gd) (\<lambda>gd'.
       Inr (game_store gp game_type gd')))"

definition new_history_entry ::
  "timestamp \<Rightarrow> bool \<Rightarrow> int \<Rightarrow> rat \<Rightarrow> int \<Rightarrow> (string \<times> string) list option \<Rightarrow> history_entry" where
  \<comment> \<open>the dict of lines 139-147; \<^verbatim>\<open>if details:\<close> is false for \<^verbatim>\<open>None\<close> and for \<^verbatim>\<open>{}\<close>\<close>
  "new_history_entry now won score time_taken cur details =
     \<lparr>he_timestamp = now, he_won = won, he_score = score, he_time_taken = time_taken,
      he_difficulty = cur,
      he_details = (case details of Some (x # xs) \<Rightarrow> Some (x # xs) | _ \<Rightarrow> None)\<rparr>"

definition record_result ::
  "game_data \<Rightarrow> bool \<Rightarrow> int \<Rightarrow> rat \<Rightarrow> (string \<times> string) list option \<Rightarrow> timestamp \<Rightarrow>
   py_error + game_data" where
  \<comment> \<open>lines 134-153 on the dict \<^verbatim>\<open>game_data\<close>\<close>
  "record_result gd won score time_taken details now =
     bind_err (key (games_played gd)) (\<lambda>played.
     bind_err (if won
               then bind_err (key (games_won gd)) (\<lambda>w.
                      Inr (gd\<lparr>games_played := Some (played + 1), games_won := Some (w + 1)\<rparr>))
               else Inr (gd\<lparr>games_played := Some (played + 1)\<rparr>)) (\<lambda>gd.
     bind_err (key (current_difficulty gd)) (\<lambda>cur.
     bind_err (key (history gd)) (\<lambda>hist.
       let history_entry = new_history_entry now won score time_taken cur details;
           hist = hist @ [history_entry];
           hist = (if 50 < length hist then py_last_n 50 hist else hist)
       in Inr (gd\<lparr>history := Some hist\<rparr>)))))"

definition update_game_result ::
  "game_progress \<Rightarrow> string \<Rightarrow> bool \<Rightarrow> int \<Rightarrow> rat \<Rightarrow> (string \<times> string) list option \<Rightarrow>
   timestamp \<Rightarrow> py_error + game_progress" where
  \<comment> \<open>the clock reads of one call are taken at the one instant \<open>now\<close>\<close>
  "update_game_result gp game_type won score time_taken details now =
     bind_err (game_lookup (data gp) game_type) (\<lambda>gd.
     bind_err (record_result gd won score time_taken details now) (\<lambda>gd.
     bind_err (adjust_difficulty (game_store gp game_type gd) game_type) (\<lambda>gp.
       Inr (save_progress gp now))))"

text \<open>Reads of one key of a game type's record, as the program writes them.\<close>

definition stored_difficulty :: "game_progress \<Rightarrow> string \<Rightarrow> py_error + int" where
  \<comment> \<open>\<^verbatim>\<open>self.data['games'][game_type]['current_difficulty']\<close>\<close>
  "stored_difficulty gp game_type =
     bind_err (game_lookup (data gp) game_type) (\<lambda>gd. key (current_difficulty gd))"

definition stored_history :: "game_progress \<Rightarrow> string \<Rightarrow> py_error + history_entry list" where
  \<comment> \<open>\<^verbatim>\<open>self.data['games'][game_type]['history']\<close>\<close>
  "stored_history gp game_type =
     bind_err (game_lookup (data gp) game_type) (\<lambda>gd. key (history gd))"

definition stored_played :: "game_progress \<Rightarrow> string \<Rightarrow> py_error + int" where
  \<comment> \<open>\<^verbatim>\<open>self.data['games'][game_type]['games_played']\<close>\<close>
  "stored_played gp game_type =
     bind_err (game_lookup (data gp) game_type) (\<lambda>gd. key (games_played gd))"

definition stored_won :: "game_progress \<Rightarrow> string \<Rightarrow> py_error + int" where
  \<comment> \<open>\<^verbatim>\<open>self.data['games'][game_type]['games_won']\<close>\<close>
  "stored_won gp game_type =
     bind_err (game_lookup (data gp) game_type) (\<lambda>gd. key (games_won gd))"

definition complete_record :: "game_data \<Rightarrow> bool" where
  \<comment> \<open>all five keys that the program writes for a game type are present\<close>
  "complete_record gd =
     (level gd \<noteq> None \<and> games_played gd \<noteq> None \<and> games_won gd \<noteq> None \<and>
      current_difficulty gd \<noteq> None \<and> history gd \<noteq> None)"

text \<open>
  A sequence of \<^verbatim>\<open>update_game_result\<close> calls on one game type: each call is given by its
  arguments and the clock it reads. \<open>update_all\<close> runs the calls in order and stops at
  the first exception. \<open>appended_entries\<close> lists, in call order, the entry that each call
  appends: the dict built from the call's arguments and from the \<^verbatim>\<open>current_difficulty\<close>
  stored when the call starts.
\<close>

record result_call =
  rc_won :: bool
  rc_score :: int
  rc_time_taken :: rat
  rc_details :: "(string \<times> string) list option"
  rc_now :: timestamp

fun update_all :: "game_progress \<Rightarrow> string \<Rightarrow> result_call list \<Rightarrow> py_error + game_progress" where
  "update_all gp game_type [] = Inr gp"
| "update_all gp game_type (c # cs) =
     bind_err (update_game_result gp game_type (rc_won c) (rc_score c) (rc_time_taken c)
                 (rc_details c) (rc_now c)) (\<lambda>gp'.
       update_all gp' game_type cs)"

fun appended_entries :: "game_progress \<Rightarrow> string \<Rightarrow> result_call list \<Rightarrow> history_entry list" where
  "appended_entries gp game_type [] = []"
| "appended_entries gp game_type (c # cs) =
     (case update_game_result gp game_type (rc_won c) (rc_score c) (rc_time_taken c)
             (rc_details c) (rc_now c) of
        Inl e \<Rightarrow> []
      | Inr gp' \<Rightarrow>
          (case stored_difficulty gp game_type of
             Inl e \<Rightarrow> []
           | Inr cur \<Rightarrow>
               new_history_entry (rc_now c) (rc_won c) (rc_score c) (rc_time_taken c) cur
                 (rc_details c)
               # appended_entries gp' game_type cs))"

record game_stats =
  st_level :: int
  st_games_played :: int
  st_games_won :: int
  st_win_rate :: rat
  st_current_difficulty :: int
  st_recent_performance :: "bool list"

definition get_recent_performance ::
  "game_progress \<Rightarrow> string \<Rightarrow> nat \<Rightarrow> py_error + bool list" where
  "get_recent_performance gp game_type n =
     bind_err (game_lookup (data gp) game_type) (\<lambda>gd.
     bind_err (key (history gd)) (\<lambda>hist.
       Inr (map he_won (py_last_n n hist))))"

definition get_game_stats :: "game_progress \<Rightarrow> string \<Rightarrow> py_error + game_stats" where
  \<comment> \<open>the \<^verbatim>\<open>else 0\<close> of the win rate is the int 0, equal to the float 0.0\<close>
  "get_game_stats gp game_type =
     bind_err (game_lookup (data gp) game_type) (\<lambda>gd.
     bind_err (key (games_played gd)) (\<lambda>total.
     bind_err (key (games_won gd)) (\<lambda>won.
     bind_err (key (level gd)) (\<lambda>lv.
     bind_err (if 0 < total then py_truediv won total else Inr 0) (\<lambda>win_rate.
     bind_err (key (current_difficulty gd)) (\<lambda>cur.
     bind_err (get_recent_performance gp game_type 10) (\<lambda>recent.
       Inr \<lparr>st_level = lv, st_games_played = total, st_games_won = won,
            st_win_rate = win_rate, st_current_difficulty = cur,
            st_recent_performance = recent\<rparr>)))))))"

definition add_coins :: "game_progress \<Rightarrow> int \<Rightarrow> timestamp \<Rightarrow> py_error + game_progress" where
  "add_coins gp amount now =
     bind_err (key (total_coins (data gp))) (\<lambda>c.
       Inr (save_progress (gp\<lparr>data := (data gp)\<lparr>total_coins := Some (c + amount)\<rparr>\<rparr>) now))"

definition add_stars :: "game_progress \<Rightarrow> int \<Rightarrow> timestamp \<Rightarrow> py_error + game_progress" where
  "add_stars gp amount now =
     bind_err (key (total_stars (data gp))) (\<lambda>c.
       Inr (save_progress (gp\<lparr>data := (data gp)\<lparr>total_stars := Some (c + amount)\<rparr>\<rparr>) now))"

section \<open>GameManager\<close>

definition start_game :: "game_manager \<Rightarrow> string \<Rightarrow> timestamp \<Rightarrow> game_manager" where
  "start_game gm game_type now =
     gm\<lparr>current_game :=
          Some \<lparr>cg_type = game_type, cg_start_time = now, cg_score = 0, cg_completed = False\<rparr>\<rparr>"

definition reward_coins :: "int \<Rightarrow> py_error + int" where
  \<comment> \<open>\<^verbatim>\<open>int(base_coins * (1 + difficulty * 0.1))\<close> with \<^verbatim>\<open>base_coins = 10\<close>: three rounded
      float operations, then truncation; \<^verbatim>\<open>int\<close> of an infinite product raises\<close>
  "reward_coins difficulty =
     bind_err (float_of_int difficulty) (\<lambda>d.
       let x = round_double (d * float_lit (1 / 10));
           y = round_double (1 + x);
           z = round_double (10 * y)
       in if float_finite z then Inr (int_of_float z) else Inl OverflowError)"

definition reward_stars :: "int \<Rightarrow> int" where
  \<comment> \<open>lines 272-277\<close>
  "reward_stars score = (if 90 \<le> score then 3 else if 70 \<le> score then 2 else 1)"

definition end_game ::
  "game_manager \<Rightarrow> bool \<Rightarrow> int \<Rightarrow> (string \<times> string) list option \<Rightarrow> timestamp \<Rightarrow>
   py_error + game_manager" where
  \<comment> \<open>\<^verbatim>\<open>total_seconds()\<close> is the microsecond count divided by \<^verbatim>\<open>10**6\<close>\<close>
  "end_game gm won score details now =
     (case current_game gm of
        None \<Rightarrow> Inr gm
      | Some cg \<Rightarrow>
          bind_err (py_truediv (now - cg_start_time cg) 1000000) (\<lambda>time_taken.
          bind_err (update_game_result (progress gm) (cg_type cg) won score time_taken
                      details now) (\<lambda>gp.
          bind_err (if won
                    then bind_err (stored_difficulty gp (cg_type cg)) (\<lambda>difficulty.
                         bind_err (reward_coins difficulty) (\<lambda>coins.
                         bind_err (add_coins gp coins now) (\<lambda>gp.
                           add_stars gp (reward_stars score) now)))
                    else Inr gp) (\<lambda>gp.
            Inr (gm\<lparr>progress := gp, current_game := None\<rparr>)))))"

subsection \<open>Parsing the birth date\<close>

text \<open>
  \<^verbatim>\<open>birth_date.split('-')\<close>, \<^verbatim>\<open>int(...)\<close> and \<^verbatim>\<open>datetime.date(...)\<close>. Every exception raised
  between \<^verbatim>\<open>try\<close> and \<^verbatim>\<open>except\<close> is caught, so a failure of any of the three is the one
  value \<open>None\<close>. A \<open>char\<close> stands for the code point of the same number, so a \<open>string\<close> is a
  Python string of code points below 256. On these, \<^verbatim>\<open>int\<close> skips at both ends the six ASCII
  whitespace characters and the two further ones U+0085 and U+00A0, takes only the ASCII
  digits as digits, and refuses more than \<^verbatim>\<open>sys.int_max_str_digits\<close> digits (4300 unless
  reconfigured), leading zeros included.
\<close>

record date =
  year :: int
  month :: int
  day :: int

fun split_on :: "char \<Rightarrow> string \<Rightarrow> string list" where
  "split_on sep [] = [[]]"
| "split_on sep (c # cs) =
     (if c = sep then [] # split_on sep cs
      else (case split_on sep cs of [] \<Rightarrow> [[c]] | p # ps \<Rightarrow> (c # p) # ps))"

definition is_space :: "char \<Rightarrow> bool" where
  \<comment> \<open>tab, line feed, vertical tab, form feed, carriage return, space, next line (U+0085)
      and no-break space (U+00A0)\<close>
  "is_space c =
     (c \<in> set [CHR 0x09, CHR 0x0A, CHR 0x0B, CHR 0x0C, CHR 0x0D, CHR '' '', CHR 0x85, CHR 0xA0])"

definition is_digit :: "char \<Rightarrow> bool" where
  "is_digit c = (48 \<le> (of_char c :: nat) \<and> (of_char c :: nat) \<le> 57)"

definition digit_value :: "char \<Rightarrow> int" where
  "digit_value c = int (of_char c) - 48"

fun digits_value :: "int \<Rightarrow> string \<Rightarrow> int option" where
  "digits_value acc [] = Some acc"
| "digits_value acc [c] = (if is_digit c then Some (10 * acc + digit_value c) else None)"
| "digits_value acc (c # d # cs) =
     (if is_digit c then digits_value (10 * acc + digit_value c) (d # cs)
      else if c = CHR ''_'' \<and> is_digit d then digits_value (10 * acc + digit_value d) cs
      else None)"

definition int_max_str_digits :: nat where
  \<comment> \<open>the default of \<^verbatim>\<open>sys.int_max_str_digits\<close>\<close>
  "int_max_str_digits = 4300"

definition unsigned_value :: "string \<Rightarrow> int option" where
  \<comment> \<open>decimal digits, single underscores allowed between two digits, and no more digits
      than the interpreter converts\<close>
  "unsigned_value s =
     (case s of [] \<Rightarrow> None
      | c # cs \<Rightarrow>
          if is_digit c \<and> length (filter is_digit s) \<le> int_max_str_digits
          then digits_value (digit_value c) cs else None)"

definition strip :: "string \<Rightarrow> string" where
  "strip s = rev (dropWhile is_space (rev (dropWhile is_space s)))"

definition py_int :: "string \<Rightarrow> int option" where
  \<comment> \<open>\<^verbatim>\<open>int(s)\<close>; \<open>None\<close> stands for \<^verbatim>\<open>ValueError\<close>\<close>
  "py_int s =
     (case strip s of [] \<Rightarrow> None
      | c # cs \<Rightarrow>
          if c = CHR ''+'' then unsigned_value cs
          else if c = CHR ''-'' then map_option uminus (unsigned_value cs)
          else unsigned_value (c # cs))"

definition is_leap :: "int \<Rightarrow> bool" where
  "is_leap y = (y mod 4 = 0 \<and> (y mod 100 \<noteq> 0 \<or> y mod 400 = 0))"

definition days_in_month :: "int \<Rightarrow> int \<Rightarrow> int" where
  "days_in_month y m =
     (if m = 2 then (if is_leap y then 29 else 28)
      else if m = 4 \<or> m = 6 \<or> m = 9 \<or> m = 11 then 30 else 31)"

definition py_date :: "int \<Rightarrow> int \<Rightarrow> int \<Rightarrow> date option" where
  \<comment> \<open>\<^verbatim>\<open>datetime.date(y, m, d)\<close>; \<open>None\<close> stands for \<^verbatim>\<open>ValueError\<close>\<close>
  "py_date y m d =
     (if 1 \<le> y \<and> y \<le> 9999 \<and> 1 \<le> m \<and> m \<le> 12 \<and> 1 \<le> d \<and> d \<le> days_in_month y m
      then Some \<lparr>year = y, month = m, day = d\<rparr> else None)"

definition parse_birth :: "string \<Rightarrow> date option" where
  \<comment> \<open>lines 296-297; unpacking needs exactly three parts\<close>
  "parse_birth s =
     (case split_on CHR ''-'' s of
        [ys, ms, ds] \<Rightarrow>
          (case py_int ys of None \<Rightarrow> None | Some y \<Rightarrow>
          (case py_int ms of None \<Rightarrow> None | Some m \<Rightarrow>
          (case py_int ds of None \<Rightarrow> None | Some d \<Rightarrow> py_date y m d)))
      | _ \<Rightarrow> None)"

definition months_step_table :: "int \<Rightarrow> int" where
  \<comment> \<open>the chain of lines 302-321\<close>
  "months_step_table months =
     (if months < 42 then 1
      else if months < 48 then 2
      else if months < 54 then 3
      else if months < 60 then 4
      else if months < 66 then 5
      else if months < 72 then 6
      else if months < 84 then 7
      else if months < 96 then 8
      else if months < 108 then 9
      else 10)"

definition age_base_difficulty :: "date \<Rightarrow> string option \<Rightarrow> int" where
  \<comment> \<open>lines 291-323: \<^verbatim>\<open>base_difficulty\<close> as it stands after the \<^verbatim>\<open>try\<close> block;
      \<^verbatim>\<open>if birth_date:\<close> is false for an absent key and for the empty string\<close>
  "age_base_difficulty today birth =
     (case birth of
        None \<Rightarrow> 5
      | Some s \<Rightarrow>
          if s = [] then 5
          else (case parse_birth s of
                  None \<Rightarrow> 5
                | Some b \<Rightarrow>
                    months_step_table ((year today - year b) * 12 + month today - month b)))"

definition win_rate_nudge :: "int \<Rightarrow> int \<Rightarrow> int \<Rightarrow> py_error + int" where
  \<comment> \<open>lines 330-340, entered with \<^verbatim>\<open>played > 3\<close>\<close>
  "win_rate_nudge base_difficulty won played =
     bind_err (py_truediv won played) (\<lambda>win_rate.
       Inr (if float_lit (9 / 10) < win_rate then min (base_difficulty + 2) 10
            else if float_lit (8 / 10) < win_rate then min (base_difficulty + 1) 10
            else if win_rate < float_lit (2 / 10) then max (base_difficulty - 2) 1
            else if win_rate < float_lit (3 / 10) then max (base_difficulty - 1) 1
            else base_difficulty))"

definition get_difficulty ::
  "game_manager \<Rightarrow> date \<Rightarrow> string \<Rightarrow> (py_error + int) \<times> game_manager" where
  \<comment> \<open>returns the value (or the exception) together with the manager as the call leaves
      it; \<open>today\<close> stands for \<^verbatim>\<open>date.today()\<close>\<close>
  "get_difficulty gm today game_type =
     (let p = data (progress gm);
          settings = (case difficulty_settings p of None \<Rightarrow> Map.empty | Some s \<Rightarrow> s)
      in case settings game_type of
           Some v \<Rightarrow> (Inr (min (max v 1) 10), gm)
         | None \<Rightarrow>
             let base_difficulty = age_base_difficulty today (birth_date p)
             in (bind_err (key (games p)) (\<lambda>gs.
                   let played = (case gs game_type of None \<Rightarrow> 0
                                 | Some gd \<Rightarrow> (case games_played gd of None \<Rightarrow> 0 | Some n \<Rightarrow> n));
                       won = (case gs game_type of None \<Rightarrow> 0
                              | Some gd \<Rightarrow> (case games_won gd of None \<Rightarrow> 0 | Some n \<Rightarrow> n))
                   in bind_err (if 3 < played then win_rate_nudge base_difficulty won played
                                else Inr base_difficulty) (\<lambda>base_difficulty.
                        Inr (min (max base_difficulty 1) 10))), gm))"

text \<open>The two counters as \<^verbatim>\<open>get_difficulty\<close> reads them (lines 326-331).\<close>

definition games_played_or_zero :: "(string \<rightharpoonup> game_data) \<Rightarrow> string \<Rightarrow> int" where
  \<comment> \<open>\<^verbatim>\<open>games.get(game_type, {}).get('games_played', 0)\<close>\<close>
  "games_played_or_zero gs game_type =
     (case gs game_type of None \<Rightarrow> 0
      | Some gd \<Rightarrow> (case games_played gd of None \<Rightarrow> 0 | Some n \<Rightarrow> n))"

definition games_won_or_zero :: "(string \<rightharpoonup> game_data) \<Rightarrow> string \<Rightarrow> int" where
  \<comment> \<open>\<^verbatim>\<open>games.get(game_type, {}).get('games_won', 0)\<close>\<close>
  "games_won_or_zero gs game_type =
     (case gs game_type of None \<Rightarrow> 0
      | Some gd \<Rightarrow> (case games_won gd of None \<Rightarrow> 0 | Some n \<Rightarrow> n))"

section \<open>Reference formulations\<close>

definition spec_post_game_difficulty :: "int \<Rightarrow> history_entry list \<Rightarrow> int" where
  \<comment> \<open>the post-game adjustment rule as the specification words it (steps 1 to 5), in exact
      rational arithmetic: \<open>old\<close> is the difficulty before the call and \<open>hist\<close> the history
      after the new entry was appended\<close>
  "spec_post_game_difficulty old hist =
     (if length hist < 5 then old
      else let success_rate = (of_nat (length (filter he_won (take 5 (rev hist)))) :: rat) / 5
           in if 85 / 100 \<le> success_rate then min (old + 1) 10
              else if success_rate \<le> 55 / 100 then max (old - 1) 1
              else old)"

definition recorded ::
  "game_data \<Rightarrow> int \<Rightarrow> int \<Rightarrow> history_entry list \<Rightarrow> bool \<Rightarrow> history_entry \<Rightarrow> game_data" where
  \<comment> \<open>the record that a successful \<^verbatim>\<open>update_game_result\<close> leaves behind, in closed form:
      \<open>played\<close>, \<open>cur\<close> and \<open>hist\<close> are the values stored before the call, \<open>e\<close> the new entry\<close>
  "recorded gd played cur hist won e =
     gd\<lparr>games_played := Some (played + 1),
        games_won := (if won then map_option (\<lambda>w. w + 1) (games_won gd) else games_won gd),
        history := Some (py_last_n 50 (hist @ [e])),
        current_difficulty := Some (spec_post_game_difficulty cur (py_last_n 50 (hist @ [e])))\<rparr>"

section \<open>A sample profile\<close>

text \<open>
  A profile in which the game type \<^verbatim>\<open>counting\<close> stands at difficulty 5 after four won
  games, with a session of that game type running.
\<close>

definition example_entry :: "bool \<Rightarrow> history_entry" where
  "example_entry w =
     \<lparr>he_timestamp = 0, he_won = w, he_score = 80, he_time_taken = 0, he_difficulty = 5,
      he_details = None\<rparr>"

definition example_record :: game_data where
  "example_record =
     \<lparr>level = Some 1, games_played = Some 4, games_won = Some 4,
      current_difficulty = Some 5, history = Some (replicate 4 (example_entry True))\<rparr>"

definition example_profile :: profile where
  "example_profile = (default_data 0)\<lparr>games := Some (default_games(''counting'' \<mapsto> example_record))\<rparr>"

definition example_progress :: game_progress where
  "example_progress = \<lparr>data = example_profile, save_file = Json (Dict example_profile)\<rparr>"

definition example_manager :: game_manager where
  "example_manager =
     \<lparr>progress = example_progress,
      current_game = Some \<lparr>cg_type = ''counting'', cg_start_time = 0, cg_score = 0,
                            cg_completed = False\<rparr>,
      sound_enabled = True, music_enabled = True\<rparr>"

definition example_call :: result_call where
  "example_call =
     \<lparr>rc_won = True, rc_score = 95, rc_time_taken = 3, rc_details = None, rc_now = 7\<rparr>"

definition example_override :: game_manager where
  \<comment> \<open>the sample profile with a birth date and a manual override for \<^verbatim>\<open>counting\<close>\<close>
  "example_override =
     example_manager\<lparr>progress := example_progress\<lparr>data :=
       example_profile\<lparr>birth_date := Some ''2020-05-07'',
                       difficulty_settings := Some [''counting'' \<mapsto> 7]\<rparr>\<rparr>\<rparr>"

definition example_born :: "string \<Rightarrow> game_manager" where
  \<comment> \<open>the sample profile with the given \<^verbatim>\<open>birth_date\<close> string and a settings dict that
      overrides \<^verbatim>\<open>simple_math\<close> only\<close>
  "example_born s =
     example_manager\<lparr>progress := example_progress\<lparr>data :=
       example_profile\<lparr>birth_date := Some s,
                       difficulty_settings := Some [''simple_math'' \<mapsto> 5]\<rparr>\<rparr>\<rparr>"

definition no_games_profile :: profile where
  \<comment> \<open>a save file holding a JSON object without the key \<^verbatim>\<open>games\<close>\<close>
  "no_games_profile = (default_data 0)\<lparr>games := None\<rparr>"

definition no_games_progress :: game_progress where
  \<comment> \<open>\<^verbatim>\<open>GameProgress\<close> as \<^verbatim>\<open>_load_progress\<close> leaves it on that file, before migration\<close>
  "no_games_progress = \<lparr>data = no_games_profile, save_file = Json (Dict no_games_profile)\<rparr>"

definition example_today :: date where
  "example_today = \<lparr>year = 2026, month = 11, day = 4\<rparr>"

text \<open>What one \<^verbatim>\<open>end_game\<close> call adds to the coin and star totals.\<close>

definition coins_awarded ::
  "game_manager \<Rightarrow> bool \<Rightarrow> int \<Rightarrow> (string \<times> string) list option \<Rightarrow> timestamp \<Rightarrow>
   py_error + int" where
  "coins_awarded gm won score details now =
     bind_err (end_game gm won score details now) (\<lambda>gm'.
     bind_err (key (total_coins (data (progress gm')))) (\<lambda>after.
     bind_err (key (total_coins (data (progress gm)))) (\<lambda>before.
       Inr (after - before))))"

definition stars_awarded ::
  "game_manager \<Rightarrow> bool \<Rightarrow> int \<Rightarrow> (string \<times> string) list option \<Rightarrow> timestamp \<Rightarrow>
   py_error + int" where
  "stars_awarded gm won score details now =
     bind_err (end_game gm won score details now) (\<lambda>gm'.
     bind_err (key (total_stars (data (progress gm')))) (\<lambda>after.
     bind_err (key (total_stars (data (progress gm)))) (\<lambda>before.
       Inr (after - before))))"

section \<open>Game types present after initialisation\<close>

definition known_game_types :: "string list" where
  \<comment> \<open>the ids of the default structure (lines 32-80)\<close>
  "known_game_types =
     [''find_difference'', ''counting'', ''simple_math'', ''music_theory'',
      ''staff_reading'', ''rhythm'', ''interval'']"

definition present_game_types :: "game_progress \<Rightarrow> string list" where
  \<comment> \<open>the known ids that have an entry in \<^verbatim>\<open>self.data['games']\<close>\<close>
  "present_game_types gp =
     (case games (data gp) of
        None \<Rightarrow> []
      | Some gs \<Rightarrow> filter (\<lambda>k. gs k \<noteq> None) known_game_types)"

definition init_present_game_types :: "file_state \<Rightarrow> timestamp \<Rightarrow> py_error + string list" where
  "init_present_game_types f now =
     (case init_progress f now of Inl e \<Rightarrow> Inl e | Inr gp \<Rightarrow> Inr (present_game_types gp))"

definition pre_music_games :: "string \<rightharpoonup> game_data" where
  "pre_music_games =
     [''find_difference'' \<mapsto> new_game_data, ''counting'' \<mapsto> new_game_data,
      ''simple_math'' \<mapsto> new_game_data]"

definition pre_music_profile :: profile where
  \<comment> \<open>a save file written before \<^verbatim>\<open>music_theory\<close> existed: the case of the \<^verbatim>\<open>else\<close> branch
      of \<^verbatim>\<open>_migrate_data\<close> (line 115)\<close>
  "pre_music_profile = (default_data 0)\<lparr>games := Some pre_music_games\<rparr>"

definition music_games :: "string \<rightharpoonup> game_data" where
  "music_games =
     [''find_difference'' \<mapsto> new_game_data, ''counting'' \<mapsto> new_game_data,
      ''simple_math'' \<mapsto> new_game_data,
      ''music_theory'' \<mapsto> new_game_data\<lparr>games_played := Some 10, games_won := Some 7,
                                           current_difficulty := Some 4\<rparr>]"

definition music_profile :: profile where
  \<comment> \<open>a save file written when \<^verbatim>\<open>music_theory\<close> was the one music game, played 10 times\<close>
  "music_profile = (default_data 0)\<lparr>games := Some music_games\<rparr>"

section \<open>Basic facts\<close>

lemma bind_err_simps [simp]:
  "bind_err (Inr x) f = f x" "bind_err (Inl e) f = Inl e"
  by (simp_all add: bind_err_def)

lemma key_simps [simp]: "key (Some x) = Inr x" "key None = Inl KeyError"
  by (simp_all add: key_def)

lemma bind_err_eq_Inr: "bind_err m f = Inr y \<longleftrightarrow> (\<exists>x. m = Inr x \<and> f x = Inr y)"
  by (cases m) simp_all

lemma key_eq_Inr [simp]: "key v = Inr x \<longleftrightarrow> v = Some x"
  by (cases v) simp_all

lemma length_py_last_n [simp]: "length (py_last_n n xs) = min n (length xs)"
  by (simp add: py_last_n_def)

lemma py_last_n_short: "length xs \<le> n \<Longrightarrow> py_last_n n xs = xs"
  by (simp add: py_last_n_def)

lemma py_last_n_rev: "py_last_n n xs = rev (take n (rev xs))"
  by (simp add: py_last_n_def take_rev)

lemma py_last_n_snoc: "0 < n \<Longrightarrow> py_last_n n (xs @ [x]) = py_last_n (n - 1) xs @ [x]"
  by (cases n) (simp_all add: py_last_n_def Suc_diff_le)

subsection \<open>Rounded arithmetic on the values that occur\<close>

lemma float_finite_small: "\<bar>r\<bar> \<le> 2 ^ 64 \<Longrightarrow> float_finite r"
  by (simp add: float_finite_def)

lemma round_double_fifths:
  "round_double (1 / 5) = 3602879701896397 / 18014398509481984"
  "round_double (2 / 5) = 3602879701896397 / 9007199254740992"
  "round_double (3 / 5) = 5404319552844595 / 9007199254740992"
  "round_double (4 / 5) = 3602879701896397 / 4503599627370496"
  "round_double 1 = 1"
  by code_simp+

lemma adaptive_thresholds:
  "difficulty_increase_threshold = 7656119366529843 / 9007199254740992"
  "difficulty_decrease_threshold = 2476979795053773 / 4503599627370496"
  by code_simp+

lemma round_double_0 [simp]: "round_double 0 = 0"
  by (simp add: round_double_def)

lemma success_rate_window:
  assumes "k \<le> 5"
  shows "py_truediv (int k) 5 = Inr (round_double (of_nat k / 5))"
    and "difficulty_increase_threshold \<le> round_double (of_nat k / 5)
           \<longleftrightarrow> (85 / 100 :: rat) \<le> of_nat k / 5"
    and "round_double (of_nat k / 5) \<le> difficulty_decrease_threshold
           \<longleftrightarrow> (of_nat k / 5 :: rat) \<le> 55 / 100"
proof -
  from assms consider "k = 0" | "k = 1" | "k = 2" | "k = 3" | "k = 4" | "k = 5"
    by linarith
  note cases = this
  from cases show "py_truediv (int k) 5 = Inr (round_double (of_nat k / 5))"
    by cases
      (simp_all add: py_truediv_def round_double_fifths float_finite_small)
  from cases show "difficulty_increase_threshold \<le> round_double (of_nat k / 5)
           \<longleftrightarrow> (85 / 100 :: rat) \<le> of_nat k / 5"
    by cases (simp_all add: round_double_fifths adaptive_thresholds)
  from cases show "round_double (of_nat k / 5) \<le> difficulty_decrease_threshold
           \<longleftrightarrow> (of_nat k / 5 :: rat) \<le> 55 / 100"
    by cases (simp_all add: round_double_fifths adaptive_thresholds)
qed

section \<open>Recording a result\<close>

lemma game_data_current_difficulty_same:
  "current_difficulty gd = Some c \<Longrightarrow> gd\<lparr>current_difficulty := Some c\<rparr> = gd"
  by (cases gd) simp

lemma wins_window: "length (filter P (py_last_n n xs)) = length (filter P (take n (rev xs)))"
proof -
  have "filter P (py_last_n n xs) = rev (filter P (take n (rev xs)))"
    by (simp add: py_last_n_rev rev_filter)
  then show ?thesis by simp
qed

lemma adjust_record_complete:
  assumes "history gd = Some hist" and "current_difficulty gd = Some cur"
  shows "adjust_record gd
         = Inr (gd\<lparr>current_difficulty := Some (spec_post_game_difficulty cur hist)\<rparr>)"
proof (cases "length hist < 5")
  case True
  then show ?thesis
    using assms
    by (simp add: adjust_record_def spec_post_game_difficulty_def min_games_before_adjust_def
        game_data_current_difficulty_same)
next
  case False
  define k where "k = length (filter he_won (py_last_n 5 hist))"
  have len: "length (py_last_n 5 hist) = 5"
    using False by simp
  have "k \<le> length (py_last_n 5 hist)"
    unfolding k_def by (rule length_filter_le)
  then have k5: "k \<le> 5" using len by simp
  have kspec: "length (filter he_won (take 5 (rev hist))) = k"
    unfolding k_def by (simp add: wins_window)
  show ?thesis
    using assms False len success_rate_window[OF k5]
    by (simp add: adjust_record_def spec_post_game_difficulty_def min_games_before_adjust_def
        game_data_current_difficulty_same kspec k_def[symmetric] Let_def)
qed

lemma truncate_50: "(if 50 < length h then py_last_n 50 h else h) = py_last_n 50 h"
  by (simp add: py_last_n_short)

lemma record_result_complete:
  assumes "games_played gd = Some played" and "current_difficulty gd = Some cur"
    and "history gd = Some hist" and "won \<Longrightarrow> games_won gd \<noteq> None"
  shows "record_result gd won score time_taken details now =
     Inr (gd\<lparr>games_played := Some (played + 1),
              games_won := (if won then map_option (\<lambda>w. w + 1) (games_won gd)
                            else games_won gd),
              history := Some (py_last_n 50
                (hist @ [new_history_entry now won score time_taken cur details]))\<rparr>)"
proof (cases won)
  case True
  with assms(4) obtain w where "games_won gd = Some w" by auto
  with True assms(1-3) show ?thesis
    by (simp add: record_result_def Let_def truncate_50 del: length_append)
next
  case False
  have "gd\<lparr>games_played := Some (played + 1), games_won := games_won gd\<rparr>
        = gd\<lparr>games_played := Some (played + 1)\<rparr>"
    by (cases gd) simp
  with False assms(1-3) show ?thesis
    by (simp add: record_result_def Let_def truncate_50 del: length_append)
qed

lemma record_result_InrD:
  assumes "record_result gd won score time_taken details now = Inr gd1"
  shows "\<exists>played cur hist.
        games_played gd = Some played \<and> current_difficulty gd = Some cur \<and>
        history gd = Some hist \<and> (won \<longrightarrow> games_won gd \<noteq> None)"
  using assms
  by (auto simp add: record_result_def bind_err_eq_Inr Let_def split: if_splits)


lemma py_last_n_append_idem: "py_last_n n (py_last_n n xs @ ys) = py_last_n n (xs @ ys)"
proof (cases "length xs \<le> n")
  case True
  then show ?thesis by (simp add: py_last_n_short)
next
  case False
  then have "length xs + length ys - (length xs - n + n) + (length xs - n)
             = length xs + length ys - n"
    by simp
  with False show ?thesis by (simp add: py_last_n_def)
qed

lemma py_last_n_append_long: "n \<le> length ys \<Longrightarrow> py_last_n n (xs @ ys) = py_last_n n ys"
  by (simp add: py_last_n_def)

lemma game_lookup_Inr: "game_lookup p g = Inr gd \<longleftrightarrow> (\<exists>gs. games p = Some gs \<and> gs g = Some gd)"
  by (simp add: game_lookup_def bind_err_eq_Inr)

lemma games_game_store:
  "games (data (game_store gp g gd)) = map_option (\<lambda>gs. gs(g \<mapsto> gd)) (games (data gp))"
  by (simp add: game_store_def)

lemma game_store_twice: "game_store (game_store gp g a) g b = game_store gp g b"
  by (simp add: game_store_def option.map_comp comp_def)

lemma games_save_progress [simp]: "games (data (save_progress gp now)) = games (data gp)"
  by (simp add: save_progress_def Let_def)

lemma adjust_difficulty_stored:
  assumes "games (data gp) = Some gs" and "history gd = Some hist"
    and "current_difficulty gd = Some cur"
  shows "adjust_difficulty (game_store gp g gd) g
         = Inr (game_store gp g (gd\<lparr>current_difficulty := Some (spec_post_game_difficulty cur hist)\<rparr>))"
  using assms
  by (simp add: adjust_difficulty_def game_lookup_def games_game_store
      adjust_record_complete game_store_twice)

lemma update_game_result_complete:
  assumes "games (data gp) = Some gs" and "gs g = Some gd"
    and "games_played gd = Some played" and "current_difficulty gd = Some cur"
    and "history gd = Some hist" and "won \<Longrightarrow> games_won gd \<noteq> None"
  shows "update_game_result gp g won score time_taken details now =
     Inr (save_progress (game_store gp g
       (recorded gd played cur hist won
          (new_history_entry now won score time_taken cur details))) now)"
proof -
  let ?e = "new_history_entry now won score time_taken cur details"
  let ?gd1 = "gd\<lparr>games_played := Some (played + 1),
              games_won := (if won then map_option (\<lambda>w. w + 1) (games_won gd)
                            else games_won gd),
              history := Some (py_last_n 50 (hist @ [?e]))\<rparr>"
  have r: "record_result gd won score time_taken details now = Inr ?gd1"
    using assms(3-6) by (rule record_result_complete)
  have a: "adjust_difficulty (game_store gp g ?gd1) g
     = Inr (game_store gp g (?gd1\<lparr>current_difficulty :=
              Some (spec_post_game_difficulty cur (py_last_n 50 (hist @ [?e])))\<rparr>))"
    using assms(1,4) by (intro adjust_difficulty_stored) simp_all
  show ?thesis
    using assms(1,2) r a
    by (simp add: update_game_result_def game_lookup_def recorded_def)
qed

lemma update_game_result_InrD:
  assumes "update_game_result gp g won score time_taken details now = Inr gp'"
  shows "\<exists>gs gd played cur hist.
     games (data gp) = Some gs \<and> gs g = Some gd \<and> games_played gd = Some played \<and>
     current_difficulty gd = Some cur \<and> history gd = Some hist \<and>
     (won \<longrightarrow> games_won gd \<noteq> None)"
  using assms
  by (auto simp add: update_game_result_def bind_err_eq_Inr game_lookup_Inr
      dest!: record_result_InrD)


lemma update_all_history:
  assumes "update_all gp g cs = Inr gp'" and "games (data gp) = Some gs" and "gs g = Some gd"
    and "history gd = Some hist" and "cs \<noteq> []"
  shows "\<exists>gs' gd'. games (data gp') = Some gs' \<and> gs' g = Some gd' \<and>
           history gd' = Some (py_last_n 50 (hist @ appended_entries gp g cs)) \<and>
           length (appended_entries gp g cs) = length cs"
  using assms
proof (induction cs arbitrary: gp gs gd hist)
  case Nil
  then show ?case by simp
next
  case (Cons c cs)
  from Cons.prems(1) obtain gp1 where
    step: "update_game_result gp g (rc_won c) (rc_score c) (rc_time_taken c) (rc_details c) (rc_now c) = Inr gp1"
    and rest: "update_all gp1 g cs = Inr gp'"
    by (auto simp add: bind_err_eq_Inr)
  from update_game_result_InrD[OF step] Cons.prems(2,3,4) obtain played cur where
    f: "games_played gd = Some played" "current_difficulty gd = Some cur"
       "rc_won c \<longrightarrow> games_won gd \<noteq> None"
    by auto
  let ?e = "new_history_entry (rc_now c) (rc_won c) (rc_score c) (rc_time_taken c) cur (rc_details c)"
  let ?gd1 = "recorded gd played cur hist (rc_won c) ?e"
  have gp1: "gp1 = save_progress (game_store gp g ?gd1) (rc_now c)"
    using update_game_result_complete[OF Cons.prems(2,3) f(1,2) Cons.prems(4), of "rc_won c"] f(3) step
    by simp
  have g1: "games (data gp1) = Some (gs(g \<mapsto> ?gd1))"
    using Cons.prems(2) by (simp add: gp1 games_game_store)
  have h1: "history ?gd1 = Some (py_last_n 50 (hist @ [?e]))"
    by (simp add: recorded_def)
  have ae: "appended_entries gp g (c # cs) = ?e # appended_entries gp1 g cs"
    using step Cons.prems(2,3) f(2) by (simp add: stored_difficulty_def game_lookup_def)
  show ?case
  proof (cases "cs = []")
    case True
    with rest have "gp' = gp1" by simp
    with True g1 h1 ae show ?thesis by simp
  next
    case False
    from Cons.IH[OF rest g1 _ h1 False]
    obtain gs' gd' where
      "games (data gp') = Some gs'" "gs' g = Some gd'"
      "history gd' = Some (py_last_n 50 (py_last_n 50 (hist @ [?e]) @ appended_entries gp1 g cs))"
      "length (appended_entries gp1 g cs) = length cs"
      by auto
    then show ?thesis
      by (simp add: ae py_last_n_append_idem del: appended_entries.simps)
  qed
qed

lemma stored_after_update:
  assumes "games (data gp) = Some gs"
  shows "stored_difficulty (save_progress (game_store gp g gd) now) g = key (current_difficulty gd)"
    and "stored_history (save_progress (game_store gp g gd) now) g = key (history gd)"
    and "stored_played (save_progress (game_store gp g gd) now) g = key (games_played gd)"
    and "stored_won (save_progress (game_store gp g gd) now) g = key (games_won gd)"
  using assms
  by (simp_all add: stored_difficulty_def stored_history_def stored_played_def stored_won_def
      game_lookup_def games_game_store)

lemma stored_eq_Inr:
  "stored_difficulty gp g = Inr c \<longleftrightarrow> (\<exists>gs gd. games (data gp) = Some gs \<and> gs g = Some gd \<and> current_difficulty gd = Some c)"
  "stored_history gp g = Inr h \<longleftrightarrow> (\<exists>gs gd. games (data gp) = Some gs \<and> gs g = Some gd \<and> history gd = Some h)"
  "stored_played gp g = Inr n \<longleftrightarrow> (\<exists>gs gd. games (data gp) = Some gs \<and> gs g = Some gd \<and> games_played gd = Some n)"
  "stored_won gp g = Inr n \<longleftrightarrow> (\<exists>gs gd. games (data gp) = Some gs \<and> gs g = Some gd \<and> games_won gd = Some n)"
  by (auto simp add: stored_difficulty_def stored_history_def stored_played_def stored_won_def
      bind_err_eq_Inr game_lookup_Inr)

lemma update_game_result_cases:
  assumes "update_game_result gp g won score time_taken details now = Inr gp'"
  obtains gs gd played cur hist where
    "games (data gp) = Some gs" and "gs g = Some gd" and "games_played gd = Some played"
    and "current_difficulty gd = Some cur" and "history gd = Some hist"
    and "won \<longrightarrow> games_won gd \<noteq> None"
    and "gp' = save_progress (game_store gp g
           (recorded gd played cur hist won
              (new_history_entry now won score time_taken cur details))) now"
proof -
  from update_game_result_InrD[OF assms] obtain gs gd played cur hist where
    h: "games (data gp) = Some gs" "gs g = Some gd" "games_played gd = Some played"
       "current_difficulty gd = Some cur" "history gd = Some hist"
       "won \<longrightarrow> games_won gd \<noteq> None"
    by blast
  from h(6) have w: "won \<Longrightarrow> games_won gd \<noteq> None" by simp
  have "gp' = save_progress (game_store gp g
           (recorded gd played cur hist won
              (new_history_entry now won score time_taken cur details))) now"
    using update_game_result_complete[OF h(1-5) w, of won score time_taken details now] assms
    by simp
  with h show thesis by (rule that)
qed

section \<open>The claims about recording a result\<close>

text \<open>
  Claim C3. Every \<^verbatim>\<open>update_game_result\<close> call that returns leaves the game type's
  \<^verbatim>\<open>current_difficulty\<close> as the post-game rule of the specification prescribes, computed
  from the difficulty \<open>old\<close> stored before the call and the history \<open>hist'\<close> stored after
  it: unchanged when \<open>hist'\<close> has fewer than 5 entries; otherwise, with the success rate
  being the wins among the last 5 entries of \<open>hist'\<close> divided by 5, \<open>min (old + 1) 10\<close>
  when the rate is at least 0.85, \<open>max (old - 1) 1\<close> when it is at most 0.55, and
  unchanged in between. The program compares binary64 values; on a window of five games
  these comparisons agree with the exact ones. A difficulty within 1..10 moves by at
  most one step.
\<close>

theorem post_game_adjustment_rule:
  assumes "update_game_result gp game_type won score time_taken details now = Inr gp'"
    and "stored_difficulty gp game_type = Inr old"
  shows "\<exists>hist'. stored_history gp' game_type = Inr hist'
           \<and> stored_difficulty gp' game_type = Inr (spec_post_game_difficulty old hist')
           \<and> (1 \<le> old \<and> old \<le> 10 \<longrightarrow> \<bar>spec_post_game_difficulty old hist' - old\<bar> \<le> 1)"
proof -
  from assms(1) obtain gs gd played cur hist where
    h: "games (data gp) = Some gs" "gs game_type = Some gd"
       "current_difficulty gd = Some cur"
    and gp': "gp' = save_progress (game_store gp game_type
           (recorded gd played cur hist won
              (new_history_entry now won score time_taken cur details))) now"
    by (rule update_game_result_cases)
  from assms(2) h have "cur = old"
    by (simp add: stored_eq_Inr)
  moreover have "\<bar>spec_post_game_difficulty old hs - old\<bar> \<le> 1" if "1 \<le> old" "old \<le> 10" for hs
    using that by (auto simp add: spec_post_game_difficulty_def Let_def)
  ultimately show ?thesis
    using h(1) by (simp add: gp' stored_after_update recorded_def)
qed

lemma example_progress_update:
  "update_game_result example_progress ''counting'' True 95 3 None 7 =
     Inr (save_progress (game_store example_progress ''counting''
       (recorded example_record 4 5 (replicate 4 (example_entry True)) True
          (new_history_entry 7 True 95 3 5 None))) 7)"
  by (rule update_game_result_complete[where gs = "default_games(''counting'' \<mapsto> example_record)"])
     (simp_all add: example_progress_def example_profile_def example_record_def)

lemma example_stored:
  "stored_difficulty example_progress ''counting'' = Inr 5"
  "stored_played example_progress ''counting'' = Inr 4"
  "stored_won example_progress ''counting'' = Inr 4"
  "stored_history example_progress ''counting'' = Inr (replicate 4 (example_entry True))"
  by (simp_all add: stored_difficulty_def stored_played_def stored_won_def stored_history_def
      game_lookup_def example_progress_def example_profile_def example_record_def)

lemma spec_example: "spec_post_game_difficulty 5 (py_last_n 50 (replicate 4 (example_entry True) @ [new_history_entry 7 True 95 3 5 None])) = 6"
  by (simp add: spec_post_game_difficulty_def py_last_n_def new_history_entry_def example_entry_def numeral_eq_Suc)

theorem post_game_adjustment_rule_witness:
  "\<exists>gp' hist'. update_game_result example_progress ''counting'' True 95 3 None 7 = Inr gp'
     \<and> stored_difficulty example_progress ''counting'' = Inr 5
     \<and> stored_history gp' ''counting'' = Inr hist'
     \<and> stored_difficulty gp' ''counting'' = Inr (spec_post_game_difficulty 5 hist')
     \<and> spec_post_game_difficulty 5 hist' = 6
     \<and> \<bar>spec_post_game_difficulty 5 hist' - 5\<bar> \<le> 1"
proof -
  let ?gp' = "save_progress (game_store example_progress ''counting''
       (recorded example_record 4 5 (replicate 4 (example_entry True)) True
          (new_history_entry 7 True 95 3 5 None))) 7"
  have g: "games (data example_progress) = Some (default_games(''counting'' \<mapsto> example_record))"
    by (simp add: example_progress_def example_profile_def)
  have h: "stored_history ?gp' ''counting'' = Inr (py_last_n 50 (replicate 4 (example_entry True) @ [new_history_entry 7 True 95 3 5 None]))"
    by (simp add: stored_after_update[OF g] recorded_def)
  from post_game_adjustment_rule[OF example_progress_update example_stored(1)] h
  show ?thesis
    using example_progress_update example_stored(1) spec_example by auto
qed


text \<open>
  Claim C7. Every \<^verbatim>\<open>update_game_result\<close> call that returns has appended, as the last
  history entry, the entry built from the call's arguments whose \<^verbatim>\<open>difficulty\<close> field is
  the \<^verbatim>\<open>current_difficulty\<close> stored before the call, not the value that the adjustment
  computes afterwards; \<^verbatim>\<open>games_played\<close> has grown by 1, and \<^verbatim>\<open>games_won\<close> has grown by 1
  if \<^verbatim>\<open>won\<close> is true and is unchanged otherwise.
\<close>

theorem update_records_played_difficulty:
  assumes "update_game_result gp game_type won score time_taken details now = Inr gp'"
  shows "\<exists>cur played hist'.
           stored_difficulty gp game_type = Inr cur
         \<and> stored_played gp game_type = Inr played
         \<and> stored_history gp' game_type = Inr hist'
         \<and> hist' \<noteq> []
         \<and> last hist' = new_history_entry now won score time_taken cur details
         \<and> he_difficulty (last hist') = cur
         \<and> stored_played gp' game_type = Inr (played + 1)
         \<and> (if won
            then \<exists>w. stored_won gp game_type = Inr w \<and> stored_won gp' game_type = Inr (w + 1)
            else stored_won gp' game_type = stored_won gp game_type)"
proof -
  from assms obtain gs gd played cur hist where
    h: "games (data gp) = Some gs" "gs game_type = Some gd" "games_played gd = Some played"
       "current_difficulty gd = Some cur" "history gd = Some hist"
       "won \<longrightarrow> games_won gd \<noteq> None"
    and gp': "gp' = save_progress (game_store gp game_type
           (recorded gd played cur hist won
              (new_history_entry now won score time_taken cur details))) now"
    by (rule update_game_result_cases)
  let ?e = "new_history_entry now won score time_taken cur details"
  have l: "py_last_n 50 (hist @ [?e]) \<noteq> []" "last (py_last_n 50 (hist @ [?e])) = ?e"
    by (simp_all add: py_last_n_snoc)
  have d: "he_difficulty ?e = cur"
    by (simp add: new_history_entry_def)
  have sw: "stored_won gp game_type = key (games_won gd)"
    using h(1,2) by (simp add: stored_won_def game_lookup_def)
  have w: "if won
            then \<exists>w. stored_won gp game_type = Inr w \<and> stored_won gp' game_type = Inr (w + 1)
            else stored_won gp' game_type = stored_won gp game_type"
    using h(1,6) by (auto simp add: gp' stored_after_update recorded_def sw)
  have "stored_difficulty gp game_type = Inr cur" "stored_played gp game_type = Inr played"
    using h by (auto simp add: stored_eq_Inr)
  moreover have "stored_history gp' game_type = Inr (py_last_n 50 (hist @ [?e]))"
    "stored_played gp' game_type = Inr (played + 1)"
    using h(1) by (simp_all add: gp' stored_after_update recorded_def)
  ultimately show ?thesis
    using l d w by (intro exI[of _ cur] exI[of _ played] exI[of _ "py_last_n 50 (hist @ [?e])"]) simp
qed

theorem update_records_played_difficulty_witness:
  "\<exists>gp' hist'. update_game_result example_progress ''counting'' True 95 3 None 7 = Inr gp'
     \<and> stored_difficulty example_progress ''counting'' = Inr 5
     \<and> stored_played example_progress ''counting'' = Inr 4
     \<and> stored_won example_progress ''counting'' = Inr 4
     \<and> stored_history gp' ''counting'' = Inr hist'
     \<and> last hist' = new_history_entry 7 True 95 3 5 None
     \<and> he_difficulty (last hist') = 5
     \<and> stored_played gp' ''counting'' = Inr 5
     \<and> stored_won gp' ''counting'' = Inr 5"
  using update_records_played_difficulty[OF example_progress_update]
    example_progress_update example_stored
  by auto

lemma update_all_take:
  assumes "update_all gp g cs = Inr gp'"
  shows "\<exists>gp_n. update_all gp g (take n cs) = Inr gp_n"
  using assms
proof (induction cs arbitrary: gp n)
  case Nil
  then show ?case by simp
next
  case (Cons c cs)
  show ?case
  proof (cases n)
    case 0
    then show ?thesis by simp
  next
    case (Suc m)
    from Cons.prems obtain gp1 where
      step: "update_game_result gp g (rc_won c) (rc_score c) (rc_time_taken c) (rc_details c) (rc_now c) = Inr gp1"
      and rest: "update_all gp1 g cs = Inr gp'"
      by (auto simp add: bind_err_eq_Inr)
    from Cons.IH[OF rest, of m] step Suc show ?thesis by simp
  qed
qed

lemma appended_entries_take:
  assumes "update_all gp g cs = Inr gp'"
  shows "appended_entries gp g (take n cs) = take n (appended_entries gp g cs)"
  using assms
proof (induction cs arbitrary: gp n)
  case Nil
  then show ?case by simp
next
  case (Cons c cs)
  show ?case
  proof (cases n)
    case 0
    then show ?thesis by simp
  next
    case (Suc m)
    from Cons.prems obtain gp1 where
      step: "update_game_result gp g (rc_won c) (rc_score c) (rc_time_taken c) (rc_details c) (rc_now c) = Inr gp1"
      and rest: "update_all gp1 g cs = Inr gp'"
      by (auto simp add: bind_err_eq_Inr)
    from Cons.IH[OF rest, of m] step Suc show ?thesis
      by (simp split: sum.splits)
  qed
qed

lemma complete_recorded:
  assumes "complete_record gd"
  shows "complete_record (recorded gd played cur hist won e)"
  using assms by (auto simp add: complete_record_def recorded_def)

lemma update_all_total:
  assumes "games (data gp) = Some gs" and "gs g = Some gd" and "complete_record gd"
  shows "\<exists>gp'. update_all gp g cs = Inr gp'"
  using assms
proof (induction cs arbitrary: gp gs gd)
  case Nil
  then show ?case by simp
next
  case (Cons c cs)
  from Cons.prems(3) obtain played cur hist where
    f: "games_played gd = Some played" "current_difficulty gd = Some cur"
       "history gd = Some hist" "games_won gd \<noteq> None"
    by (auto simp add: complete_record_def)
  let ?gd1 = "recorded gd played cur hist (rc_won c)
     (new_history_entry (rc_now c) (rc_won c) (rc_score c) (rc_time_taken c) cur (rc_details c))"
  let ?gp1 = "save_progress (game_store gp g ?gd1) (rc_now c)"
  have step: "update_game_result gp g (rc_won c) (rc_score c) (rc_time_taken c) (rc_details c) (rc_now c) = Inr ?gp1"
    using update_game_result_complete[OF Cons.prems(1,2) f(1,2,3), of "rc_won c"] f(4)
    by simp
  have g1: "games (data ?gp1) = Some (gs(g \<mapsto> ?gd1))"
    using Cons.prems(1) by (simp add: games_game_store)
  have c1: "complete_record ?gd1"
    using Cons.prems(3) by (rule complete_recorded)
  have "(gs(g \<mapsto> ?gd1)) g = Some ?gd1" by simp
  from Cons.IH[OF g1 this c1]
  obtain gp' where "update_all ?gp1 g cs = Inr gp'" by blast
  with step show ?case by simp
qed

text \<open>
  Claim C6. Take any sequence \<open>cs\<close> of \<^verbatim>\<open>update_game_result\<close> calls on one game type that
  all return, started from any stored history. After each call beyond the 50th, that is
  after the first \<open>n\<close> calls for every \<open>n\<close> with \<open>50 < n \<le> length cs\<close>, the stored history
  has exactly 50 entries, and they are the entries appended by the calls number
  \<open>n - 50 + 1\<close> to \<open>n\<close>, in call order: the oldest entries were dropped from the front.
\<close>

theorem history_keeps_last_50:
  assumes "update_all gp game_type cs = Inr gp'" and "50 < n" and "n \<le> length cs"
  shows "\<exists>gp_n hist_n.
           update_all gp game_type (take n cs) = Inr gp_n
         \<and> stored_history gp_n game_type = Inr hist_n
         \<and> length hist_n = 50
         \<and> hist_n = drop (n - 50) (take n (appended_entries gp game_type cs))
         \<and> length (appended_entries gp game_type cs) = length cs"
proof -
  from update_all_take[OF assms(1), of n] obtain gp_n where
    run: "update_all gp game_type (take n cs) = Inr gp_n" by blast
  from assms(2,3) obtain c cs' where cs: "cs = c # cs'"
    by (cases cs) auto
  from assms(1) cs obtain gp1 where
    "update_game_result gp game_type (rc_won c) (rc_score c) (rc_time_taken c) (rc_details c) (rc_now c) = Inr gp1"
    by (auto simp add: bind_err_eq_Inr)
  from update_game_result_InrD[OF this] obtain gs gd hist where
    h: "games (data gp) = Some gs" "gs game_type = Some gd" "history gd = Some hist"
    by blast
  have ne: "take n cs \<noteq> []" "cs \<noteq> []"
    using assms(2,3) by auto
  let ?es = "appended_entries gp game_type cs"
  from update_all_history[OF assms(1) h ne(2)]
  have len: "length ?es = length cs" by blast
  from update_all_history[OF run h ne(1)] obtain gs' gd' where
    r: "games (data gp_n) = Some gs'" "gs' game_type = Some gd'"
       "history gd' = Some (py_last_n 50 (hist @ appended_entries gp game_type (take n cs)))"
    by blast
  have tk: "appended_entries gp game_type (take n cs) = take n ?es"
    using assms(1) by (rule appended_entries_take)
  have ltk: "length (take n ?es) = n"
    using len assms(3) by simp
  have "py_last_n 50 (hist @ take n ?es) = py_last_n 50 (take n ?es)"
    using ltk assms(2) by (intro py_last_n_append_long) simp
  also have "\<dots> = drop (n - 50) (take n ?es)"
    using ltk by (simp add: py_last_n_def)
  finally have eq: "py_last_n 50 (hist @ take n ?es) = drop (n - 50) (take n ?es)" .
  have "stored_history gp_n game_type = Inr (drop (n - 50) (take n ?es))"
    using r by (simp add: stored_eq_Inr tk eq)
  moreover have "length (drop (n - 50) (take n ?es)) = 50"
    using ltk assms(2) by simp
  ultimately show ?thesis
    using run len by blast
qed

theorem history_keeps_last_50_witness:
  "\<exists>gp'. update_all example_progress ''counting'' (replicate 51 example_call) = Inr gp'
     \<and> (50 :: nat) < 51 \<and> 51 \<le> length (replicate 51 example_call)
     \<and> (\<exists>gp_n hist_n.
           update_all example_progress ''counting'' (take 51 (replicate 51 example_call)) = Inr gp_n
         \<and> stored_history gp_n ''counting'' = Inr hist_n
         \<and> length hist_n = 50
         \<and> hist_n = drop (51 - 50)
             (take 51 (appended_entries example_progress ''counting'' (replicate 51 example_call)))
         \<and> length (appended_entries example_progress ''counting'' (replicate 51 example_call))
             = length (replicate 51 example_call))"
proof -
  have "\<exists>gp'. update_all example_progress ''counting'' (replicate 51 example_call) = Inr gp'"
    by (rule update_all_total[where gs = "default_games(''counting'' \<mapsto> example_record)"
          and gd = example_record])
       (simp_all add: example_progress_def example_profile_def example_record_def
          complete_record_def)
  then obtain gp' where
    run: "update_all example_progress ''counting'' (replicate 51 example_call) = Inr gp'" ..
  have n: "(50 :: nat) < 51" "51 \<le> length (replicate 51 example_call)" by simp_all
  from history_keeps_last_50[OF run n] run n show ?thesis by blast
qed

section \<open>Resolving the difficulty of the next game\<close>

text \<open>
  Claim C4. When the profile holds a manual override \<^verbatim>\<open>difficulty_settings[game_type] = v\<close>,
  \<^verbatim>\<open>get_difficulty(game_type)\<close> returns \<open>v\<close> clamped to the range 1..10, whatever the
  birth date, the history, the counters and the stored \<^verbatim>\<open>current_difficulty\<close> are: the
  result depends on \<open>v\<close> alone.
\<close>

theorem override_precedence:
  assumes "difficulty_settings (data (progress gm)) = Some settings"
    and "settings game_type = Some v"
  shows "fst (get_difficulty gm today game_type) = Inr (min (max v 1) 10)"
  using assms by (simp add: get_difficulty_def Let_def)

theorem override_precedence_witness:
  "difficulty_settings (data (progress example_override)) = Some [''counting'' \<mapsto> 7]
   \<and> [''counting'' \<mapsto> (7::int)] ''counting'' = Some 7
   \<and> fst (get_difficulty example_override example_today ''counting'') = Inr 7"
proof -
  have s: "difficulty_settings (data (progress example_override)) = Some [''counting'' \<mapsto> 7]"
    by (simp add: example_override_def)
  have v: "[''counting'' \<mapsto> (7::int)] ''counting'' = Some 7" by simp
  from override_precedence[OF s v, of "example_today"] s v
  show ?thesis by simp
qed

text \<open>
  Claim C10. \<^verbatim>\<open>get_difficulty\<close> is read-only: whatever it returns or raises, the manager
  it leaves behind, that is the profile data with every game record, the coins, the
  stars, the overrides and the histories, the save file and the running session, is the
  manager it was called on.
\<close>

theorem get_difficulty_read_only:
  "snd (get_difficulty gm today game_type) = gm"
  by (simp add: get_difficulty_def Let_def split: option.splits)


theorem get_difficulty_read_only_witness:
  "snd (get_difficulty example_override example_today ''counting'') = example_override
   \<and> snd (get_difficulty (example_born ''2020-13-45'') example_today ''rhythm'')
       = example_born ''2020-13-45''"
  using get_difficulty_read_only[of example_override example_today "''counting''"]
    get_difficulty_read_only[of "example_born ''2020-13-45''" example_today "''rhythm''"]
  by simp

subsection \<open>Quotients of counters\<close>

lemma bit_length_nonneg: "0 \<le> bit_length n"
  by (induction n rule: bit_length.induct) (subst bit_length.simps, simp)

lemma bit_length_1: "bit_length 1 = 1"
  by (simp add: bit_length.simps)

lemma floor_log2_le_0: "0 < q \<Longrightarrow> q \<le> 1 \<Longrightarrow> floor_log2 q \<le> 0"
  using bit_length_nonneg[of "\<lceil>1 / q\<rceil> - 1"]
  by (cases "q = 1") (simp_all add: floor_log2_def bit_length_1)

lemma round_half_even_nonneg: "0 \<le> m \<Longrightarrow> 0 \<le> round_half_even m"
  by (simp add: round_half_even_def Let_def)

lemma round_half_even_le_ceiling: "round_half_even m \<le> \<lceil>m\<rceil>"
proof -
  have "\<lfloor>m\<rfloor> + 1 \<le> \<lceil>m\<rceil>" if "m \<noteq> of_int \<lfloor>m\<rfloor>"
    using that by (metis ceiling_altdef order_refl)
  moreover have "\<lfloor>m\<rfloor> \<le> \<lceil>m\<rceil>" by (rule floor_le_ceiling)
  ultimately show ?thesis
    by (auto simp add: round_half_even_def Let_def)
qed

lemma round_double_unit:
  assumes "0 \<le> q" and "q \<le> 1"
  shows "0 \<le> round_double q" and "round_double q \<le> 1"
proof -
  show "0 \<le> round_double q"
    using assms(1)
    by (auto simp add: round_double_def Let_def pow2_def sgn_if
        intro!: mult_nonneg_nonneg round_half_even_nonneg divide_nonneg_nonneg)
  show "round_double q \<le> 1"
  proof (cases "q = 0")
    case True
    then show ?thesis by simp
  next
    case False
    with assms have pos: "0 < q" by simp
    define e where "e = max (floor_log2 \<bar>q\<bar> - 52) (- 1074)"
    define k where "k = nat (- e)"
    have "e \<le> 0"
      using floor_log2_le_0[OF pos assms(2)] pos by (simp add: e_def)
    then have p: "pow2 e = 1 / 2 ^ k"
      by (cases "e = 0") (simp_all add: pow2_def k_def)
    have "\<bar>q\<bar> / pow2 e = q * 2 ^ k"
      using pos by (simp add: p)
    moreover have "q * 2 ^ k \<le> of_int (2 ^ k)"
      using assms(2) by (simp add: mult_left_le_one_le)
    ultimately have "\<lceil>\<bar>q\<bar> / pow2 e\<rceil> \<le> 2 ^ k"
      by (simp add: ceiling_le_iff)
    with round_half_even_le_ceiling[of "\<bar>q\<bar> / pow2 e"]
    have "round_half_even (\<bar>q\<bar> / pow2 e) \<le> 2 ^ k" by linarith
    then have "(of_int (round_half_even (\<bar>q\<bar> / pow2 e)) :: rat) \<le> 2 ^ k"
      by (metis of_int_le_iff of_int_numeral of_int_power)
    then have "of_int (round_half_even (\<bar>q\<bar> / pow2 e)) * pow2 e \<le> (1 :: rat)"
      by (simp add: p pos_divide_le_eq)
    with pos show ?thesis
      by (simp add: round_double_def Let_def e_def)
  qed
qed

lemma py_truediv_unit:
  assumes "0 \<le> w" and "w \<le> p" and "0 < p"
  shows "py_truediv w p = Inr (round_double (of_int w / of_int p))"
    and "0 \<le> round_double (of_int w / of_int p)"
    and "round_double (of_int w / of_int p) \<le> 1"
proof -
  have q: "(0 :: rat) \<le> of_int w / of_int p" "(of_int w / of_int p :: rat) \<le> 1"
    using assms by (simp_all add: divide_le_eq_1)
  show b: "0 \<le> round_double (of_int w / of_int p)" "round_double (of_int w / of_int p) \<le> 1"
    using round_double_unit[OF q] by simp_all
  then have "float_finite (round_double (of_int w / of_int p))"
    by (intro float_finite_small) simp
  with assms(3) show "py_truediv w p = Inr (round_double (of_int w / of_int p))"
    by (simp add: py_truediv_def)
qed

section \<open>Statistics\<close>

lemma get_game_stats_complete:
  assumes "games (data gp) = Some gs" and "gs g = Some gd"
    and "level gd = Some lv" and "games_played gd = Some played" and "games_won gd = Some won"
    and "current_difficulty gd = Some cur" and "history gd = Some hist"
    and "(if 0 < played then py_truediv won played else Inr 0) = Inr r"
  shows "get_game_stats gp g =
     Inr \<lparr>st_level = lv, st_games_played = played, st_games_won = won, st_win_rate = r,
          st_current_difficulty = cur, st_recent_performance = map he_won (py_last_n 10 hist)\<rparr>"
  using assms
  by (simp add: get_game_stats_def get_recent_performance_def game_lookup_def)

text \<open>
  Claim C8. For a game type whose record is complete, with \<^verbatim>\<open>games_played = played\<close> and
  \<^verbatim>\<open>games_won = won\<close>: when \<open>played\<close> is not positive, \<^verbatim>\<open>get_game_stats\<close> returns with
  \<^verbatim>\<open>win_rate = 0\<close> and no division takes place; when \<open>played\<close> is positive and the counters
  satisfy \<open>0 \<le> won \<le> played\<close>, it returns with \<^verbatim>\<open>win_rate\<close> the float quotient
  \<^verbatim>\<open>won / played\<close>, that is the binary64 value nearest to the exact quotient, and
  \<open>0 \<le> win_rate \<le> 1\<close>. Whenever the call returns with a positive \<open>played\<close>, its
  \<^verbatim>\<open>win_rate\<close> is that float quotient.
\<close>

theorem win_rate_defined_and_bounded:
  assumes "game_lookup (data gp) game_type = Inr gd" and "complete_record gd"
    and "games_played gd = Some played" and "games_won gd = Some won"
  shows "(played \<le> 0 \<longrightarrow>
            (\<exists>st. get_game_stats gp game_type = Inr st \<and> st_win_rate st = 0))
       \<and> (0 < played \<and> 0 \<le> won \<and> won \<le> played \<longrightarrow>
            (\<exists>st. get_game_stats gp game_type = Inr st
                \<and> st_win_rate st = round_double (of_int won / of_int played)
                \<and> 0 \<le> st_win_rate st \<and> st_win_rate st \<le> 1))
       \<and> (\<forall>st. 0 < played \<and> get_game_stats gp game_type = Inr st \<longrightarrow>
            py_truediv won played = Inr (st_win_rate st))"
proof -
  from assms(1) obtain gs where g: "games (data gp) = Some gs" "gs game_type = Some gd"
    by (auto simp add: game_lookup_Inr)
  from assms(2) obtain lv cur hist where
    f: "level gd = Some lv" "current_difficulty gd = Some cur" "history gd = Some hist"
    by (auto simp add: complete_record_def)
  note stats = get_game_stats_complete[OF g f(1) assms(3,4) f(2,3)]
  have zero: "\<exists>st. get_game_stats gp game_type = Inr st \<and> st_win_rate st = 0"
    if "played \<le> 0"
    using stats[of 0] that by simp
  have unit: "\<exists>st. get_game_stats gp game_type = Inr st
                \<and> st_win_rate st = round_double (of_int won / of_int played)
                \<and> 0 \<le> st_win_rate st \<and> st_win_rate st \<le> 1"
    if "0 < played" "0 \<le> won" "won \<le> played"
    using stats[of "round_double (of_int won / of_int played)"]
      py_truediv_unit[OF that(2,3,1)] that(1)
    by simp
  have quot: "py_truediv won played = Inr (st_win_rate st)"
    if "0 < played" "get_game_stats gp game_type = Inr st" for st
    using that g f assms(3,4)
    by (auto simp add: get_game_stats_def get_recent_performance_def game_lookup_def
        bind_err_eq_Inr)
  from zero unit quot show ?thesis by blast
qed

lemma example_progress_lookup:
  "game_lookup (data example_progress) ''counting'' = Inr example_record"
  "game_lookup (data example_progress) ''rhythm'' = Inr new_game_data"
  by (simp_all add: game_lookup_def example_progress_def example_profile_def default_games_def)

theorem win_rate_defined_and_bounded_witness:
  "game_lookup (data example_progress) ''counting'' = Inr example_record
   \<and> complete_record example_record
   \<and> games_played example_record = Some 4 \<and> games_won example_record = Some 4
   \<and> (0 :: int) < 4 \<and> (0 :: int) \<le> 4 \<and> (4 :: int) \<le> 4
   \<and> (\<exists>st. get_game_stats example_progress ''counting'' = Inr st
         \<and> st_win_rate st = round_double (of_int 4 / of_int 4)
         \<and> 0 \<le> st_win_rate st \<and> st_win_rate st \<le> 1)
   \<and> game_lookup (data example_progress) ''rhythm'' = Inr new_game_data
   \<and> complete_record new_game_data
   \<and> games_played new_game_data = Some 0 \<and> games_won new_game_data = Some 0
   \<and> (\<exists>st. get_game_stats example_progress ''rhythm'' = Inr st \<and> st_win_rate st = 0)"
proof -
  have c: "complete_record example_record" "complete_record new_game_data"
    by (simp_all add: complete_record_def example_record_def new_game_data_def)
  have p: "games_played example_record = Some 4" "games_won example_record = Some 4"
    "games_played new_game_data = Some 0" "games_won new_game_data = Some 0"
    by (simp_all add: example_record_def new_game_data_def)
  from win_rate_defined_and_bounded[OF example_progress_lookup(1) c(1) p(1,2)]
    win_rate_defined_and_bounded[OF example_progress_lookup(2) c(2) p(3,4)]
    example_progress_lookup c p
  show ?thesis by simp
qed

section \<open>The age-derived base difficulty\<close>

lemma months_step_table_range: "1 \<le> months_step_table m" "months_step_table m \<le> 10"
  by (simp_all add: months_step_table_def)

lemma age_base_difficulty_range:
  "1 \<le> age_base_difficulty today birth" "age_base_difficulty today birth \<le> 10"
  by (simp_all add: age_base_difficulty_def months_step_table_range split: option.splits)

lemma win_rate_nudge_range:
  assumes "win_rate_nudge base won played = Inr v" and "1 \<le> base" and "base \<le> 10"
  shows "1 \<le> v \<and> v \<le> 10"
  using assms by (auto simp add: win_rate_nudge_def bind_err_eq_Inr split: if_splits)

lemma win_rate_nudge_total:
  assumes "0 \<le> won" and "won \<le> played" and "3 < played"
  shows "\<exists>v. win_rate_nudge base won played = Inr v"
proof -
  from assms have "0 < played" by simp
  from py_truediv_unit(1)[OF assms(1,2) this] show ?thesis
    by (simp add: win_rate_nudge_def)
qed

lemma get_difficulty_no_override:
  assumes "\<forall>st. difficulty_settings (data (progress gm)) = Some st \<longrightarrow> st game_type = None"
    and "games (data (progress gm)) = Some gs"
  shows "fst (get_difficulty gm today game_type) =
     bind_err (if 3 < games_played_or_zero gs game_type
               then win_rate_nudge (age_base_difficulty today (birth_date (data (progress gm))))
                      (games_won_or_zero gs game_type) (games_played_or_zero gs game_type)
               else Inr (age_base_difficulty today (birth_date (data (progress gm)))))
       (\<lambda>base_difficulty. Inr (min (max base_difficulty 1) 10))"
proof (cases "difficulty_settings (data (progress gm))")
  case None
  with assms(2) show ?thesis
    by (simp add: get_difficulty_def Let_def games_played_or_zero_def games_won_or_zero_def)
next
  case (Some st)
  with assms(1) have "st game_type = None" by simp
  with Some assms(2) show ?thesis
    by (simp add: get_difficulty_def Let_def games_played_or_zero_def games_won_or_zero_def)
qed

text \<open>
  Claim C5. With no override present, that is with no settings dict or with a settings
  dict that has no entry for the game type, \<^verbatim>\<open>get_difficulty\<close> starts from the base
  difficulty \<open>age_base_difficulty today birth_date\<close>: on a profile with its \<^verbatim>\<open>games\<close>
  mapping it returns the base itself when at most 3 games of the type were played, and
  the base moved by the win-rate nudge and clamped to 1..10 otherwise. For a birth date
  string that parses to the date \<open>b\<close>, with
  \<open>months = (year today - year b) * 12 + month today - month b\<close>, the base is 1 below 42
  months, 2 on [42,48), 3 on [48,54), 4 on [54,60), 5 on [60,66), 6 on [66,72), 7 on
  [72,84), 8 on [84,96), 9 on [96,108) and 10 from 108 months on; so exactly 42 months
  give 2 and exactly 41 months give 1. For an absent, empty or unparsable birth date the
  base is 5. For no birth date value does the call raise: on a profile that has its
  \<^verbatim>\<open>games\<close> mapping, with counters \<open>0 \<le> games_won \<le> games_played\<close>, it returns a value within
  1..10, with or without an override.
\<close>

theorem age_table_and_fallback:
  fixes today b :: date and gm :: game_manager
  defines "months \<equiv> (year today - year b) * 12 + month today - month b"
  defines "p \<equiv> data (progress gm)"
  shows "(s \<noteq> [] \<and> parse_birth s = Some b \<longrightarrow>
            (months < 42 \<longrightarrow> age_base_difficulty today (Some s) = 1)
          \<and> (42 \<le> months \<and> months < 48 \<longrightarrow> age_base_difficulty today (Some s) = 2)
          \<and> (48 \<le> months \<and> months < 54 \<longrightarrow> age_base_difficulty today (Some s) = 3)
          \<and> (54 \<le> months \<and> months < 60 \<longrightarrow> age_base_difficulty today (Some s) = 4)
          \<and> (60 \<le> months \<and> months < 66 \<longrightarrow> age_base_difficulty today (Some s) = 5)
          \<and> (66 \<le> months \<and> months < 72 \<longrightarrow> age_base_difficulty today (Some s) = 6)
          \<and> (72 \<le> months \<and> months < 84 \<longrightarrow> age_base_difficulty today (Some s) = 7)
          \<and> (84 \<le> months \<and> months < 96 \<longrightarrow> age_base_difficulty today (Some s) = 8)
          \<and> (96 \<le> months \<and> months < 108 \<longrightarrow> age_base_difficulty today (Some s) = 9)
          \<and> (108 \<le> months \<longrightarrow> age_base_difficulty today (Some s) = 10)
          \<and> (months = 42 \<longrightarrow> age_base_difficulty today (Some s) = 2)
          \<and> (months = 41 \<longrightarrow> age_base_difficulty today (Some s) = 1))
       \<and> (birth = None \<or> birth = Some [] \<or> (\<exists>u. birth = Some u \<and> parse_birth u = None) \<longrightarrow>
            age_base_difficulty today birth = 5)
       \<and> ((\<forall>st. difficulty_settings p = Some st \<longrightarrow> st game_type = None)
           \<and> games p = Some gs \<and> games_played_or_zero gs game_type \<le> 3 \<longrightarrow>
            fst (get_difficulty gm today game_type) = Inr (age_base_difficulty today (birth_date p)))
       \<and> ((\<forall>st. difficulty_settings p = Some st \<longrightarrow> st game_type = None)
           \<and> games p = Some gs \<and> 3 < games_played_or_zero gs game_type \<longrightarrow>
            fst (get_difficulty gm today game_type) =
              bind_err (win_rate_nudge (age_base_difficulty today (birth_date p))
                          (games_won_or_zero gs game_type) (games_played_or_zero gs game_type))
                (\<lambda>base_difficulty. Inr (min (max base_difficulty 1) 10)))
       \<and> (games p = Some gs
           \<and> (\<forall>gd n w. gs game_type = Some gd \<and> games_played gd = Some n \<and> games_won gd = Some w
                 \<longrightarrow> 0 \<le> w \<and> w \<le> n) \<longrightarrow>
            (\<exists>v. fst (get_difficulty gm today game_type) = Inr v \<and> 1 \<le> v \<and> v \<le> 10))"
proof -
  have table: "age_base_difficulty today (Some s) = months_step_table months"
    if "s \<noteq> []" "parse_birth s = Some b"
    using that by (simp add: age_base_difficulty_def months_def)
  have fallback: "age_base_difficulty today birth = 5"
    if "birth = None \<or> birth = Some [] \<or> (\<exists>u. birth = Some u \<and> parse_birth u = None)"
    using that by (auto simp add: age_base_difficulty_def)
  have few: "fst (get_difficulty gm today game_type) = Inr (age_base_difficulty today (birth_date p))"
    if "\<forall>st. difficulty_settings p = Some st \<longrightarrow> st game_type = None" "games p = Some gs"
      "games_played_or_zero gs game_type \<le> 3"
    using get_difficulty_no_override[of gm game_type gs today] that
      age_base_difficulty_range[of today "birth_date p"]
    by (simp add: p_def)
  have many: "fst (get_difficulty gm today game_type) =
              bind_err (win_rate_nudge (age_base_difficulty today (birth_date p))
                          (games_won_or_zero gs game_type) (games_played_or_zero gs game_type))
                (\<lambda>base_difficulty. Inr (min (max base_difficulty 1) 10))"
    if "\<forall>st. difficulty_settings p = Some st \<longrightarrow> st game_type = None" "games p = Some gs"
      "3 < games_played_or_zero gs game_type"
    using get_difficulty_no_override[of gm game_type gs today] that
    by (simp add: p_def)
  have returns: "\<exists>v. fst (get_difficulty gm today game_type) = Inr v \<and> 1 \<le> v \<and> v \<le> 10"
    if g: "games p = Some gs"
      and c: "\<forall>gd n w. gs game_type = Some gd \<and> games_played gd = Some n \<and> games_won gd = Some w
                 \<longrightarrow> 0 \<le> w \<and> w \<le> n"
  proof -
    define base where "base = age_base_difficulty today (birth_date p)"
    define n where "n = (case gs game_type of None \<Rightarrow> 0
                         | Some gd \<Rightarrow> (case games_played gd of None \<Rightarrow> 0 | Some n \<Rightarrow> n))"
    define w where "w = (case gs game_type of None \<Rightarrow> 0
                         | Some gd \<Rightarrow> (case games_won gd of None \<Rightarrow> 0 | Some n \<Rightarrow> n))"
    have br: "1 \<le> base" "base \<le> 10"
      by (simp_all add: base_def age_base_difficulty_range)
    have sane: "0 \<le> w \<and> w \<le> n" if "3 < n"
      using that c by (auto simp add: n_def w_def split: option.splits)
    have nudged: "\<exists>v. (if 3 < n then win_rate_nudge base w n else Inr base) = Inr v
                      \<and> 1 \<le> v \<and> v \<le> 10"
    proof (cases "3 < n")
      case True
      with sane win_rate_nudge_total[of w n base] obtain v where
        "win_rate_nudge base w n = Inr v" by auto
      with True win_rate_nudge_range[OF _ br] show ?thesis by auto
    next
      case False
      with br show ?thesis by simp
    qed
    show ?thesis
    proof (cases "case difficulty_settings p of None \<Rightarrow> None | Some st \<Rightarrow> st game_type")
      case (Some v)
      then show ?thesis
        by (auto simp add: get_difficulty_def Let_def p_def split: option.splits)
    next
      case None
      from nudged obtain v where
        "(if 3 < n then win_rate_nudge base w n else Inr base) = Inr v" "1 \<le> v" "v \<le> 10"
        by blast
      with None g show ?thesis
        by (auto simp add: get_difficulty_def Let_def p_def[symmetric] base_def[symmetric]
            n_def[symmetric] w_def[symmetric] split: option.splits)
    qed
  qed
  from table fallback few many returns show ?thesis
    by (simp add: months_step_table_def) blast
qed

lemma parse_birth_examples:
  "parse_birth ''2023-05-20'' = Some \<lparr>year = 2023, month = 5, day = 20\<rparr>"
  "parse_birth ''2023-06-20'' = Some \<lparr>year = 2023, month = 6, day = 20\<rparr>"
  "parse_birth ''2020-13-45'' = None"
  "parse_birth (''2023-05-'' @ [CHR 0xA0] @ ''20'') = Some \<lparr>year = 2023, month = 5, day = 20\<rparr>"
  by code_simp+

lemma example_born_data:
  "difficulty_settings (data (progress (example_born s))) = Some [''simple_math'' \<mapsto> 5]"
  "birth_date (data (progress (example_born s))) = Some s"
  "games (data (progress (example_born s))) = Some (default_games(''counting'' \<mapsto> example_record))"
  by (simp_all add: example_born_def example_profile_def default_data_def)

lemma example_born_no_override:
  "\<forall>st. difficulty_settings (data (progress (example_born s))) = Some st \<longrightarrow> st ''rhythm'' = None"
  "\<forall>st. difficulty_settings (data (progress (example_born s))) = Some st \<longrightarrow> st ''counting'' = None"
  by (simp_all add: example_born_data)

lemma example_counters:
  "games_played_or_zero (default_games(''counting'' \<mapsto> example_record)) ''rhythm'' = 0"
  "games_played_or_zero (default_games(''counting'' \<mapsto> example_record)) ''counting'' = 4"
  "games_won_or_zero (default_games(''counting'' \<mapsto> example_record)) ''counting'' = 4"
  by (simp_all add: games_played_or_zero_def games_won_or_zero_def default_games_def
      new_game_data_def example_record_def)

lemma nine_tenths_literal: "float_lit (9 / 10) = 8106479329266893 / 9007199254740992"
  by code_simp

lemma win_rate_nudge_all_won: "win_rate_nudge 5 4 4 = Inr 7"
  by (simp add: win_rate_nudge_def py_truediv_def round_double_fifths float_finite_small
      nine_tenths_literal)

theorem age_table_and_fallback_witness:
  "parse_birth ''2023-05-20'' = Some \<lparr>year = 2023, month = 5, day = 20\<rparr>
   \<and> (year example_today - 2023) * 12 + month example_today - 5 = 42
   \<and> age_base_difficulty example_today (Some ''2023-05-20'') = 2
   \<and> parse_birth ''2023-06-20'' = Some \<lparr>year = 2023, month = 6, day = 20\<rparr>
   \<and> (year example_today - 2023) * 12 + month example_today - 6 = 41
   \<and> age_base_difficulty example_today (Some ''2023-06-20'') = 1
   \<and> parse_birth ''2020-13-45'' = None
   \<and> age_base_difficulty example_today (Some ''2020-13-45'') = 5
   \<and> difficulty_settings (data (progress (example_born ''2023-05-20'')))
        = Some [''simple_math'' \<mapsto> 5]
   \<and> fst (get_difficulty (example_born ''2020-13-45'') example_today ''rhythm'') = Inr 5
   \<and> fst (get_difficulty (example_born ''2023-05-20'') example_today ''rhythm'') = Inr 2
   \<and> fst (get_difficulty (example_born ''2020-13-45'') example_today ''counting'') = Inr 7
   \<and> (\<exists>v. fst (get_difficulty (example_born ''2020-13-45'') example_today ''counting'') = Inr v
          \<and> 1 \<le> v \<and> v \<le> 10)"
proof -
  let ?gs = "default_games(''counting'' \<mapsto> example_record)"
  have m: "(year example_today - 2023) * 12 + month example_today - 5 = 42"
    "(year example_today - 2023) * 12 + month example_today - 6 = 41"
    by (simp_all add: example_today_def)
  have c: "?gs ''counting'' = Some example_record"
    "games_played example_record = Some 4" "games_won example_record = Some 4"
    by (simp_all add: example_record_def)
  note t1 = age_table_and_fallback[where s = "''2023-05-20''"
      and b = "\<lparr>year = 2023, month = 5, day = 20\<rparr>" and today = example_today
      and birth = "Some ''2020-13-45''" and gm = "example_born ''2020-13-45''"
      and gs = ?gs and game_type = "''rhythm''"]
  note t2 = age_table_and_fallback[where s = "''2023-06-20''"
      and b = "\<lparr>year = 2023, month = 6, day = 20\<rparr>" and today = example_today
      and birth = None and gm = "example_born ''2023-05-20''"
      and gs = ?gs and game_type = "''rhythm''"]
  note t3 = age_table_and_fallback[where s = "''2023-06-20''"
      and b = "\<lparr>year = 2023, month = 6, day = 20\<rparr>" and today = example_today
      and birth = None and gm = "example_born ''2020-13-45''"
      and gs = ?gs and game_type = "''counting''"]
  have a: "age_base_difficulty example_today (Some ''2023-05-20'') = 2"
    "age_base_difficulty example_today (Some ''2020-13-45'') = 5"
    using t1 parse_birth_examples m by simp_all
  have b: "age_base_difficulty example_today (Some ''2023-06-20'') = 1"
    using t2 parse_birth_examples m by simp
  have d: "fst (get_difficulty (example_born ''2020-13-45'') example_today ''rhythm'') = Inr 5"
    using t1 example_born_data(2,3) example_born_no_override(1) example_counters a by simp
  have e: "fst (get_difficulty (example_born ''2023-05-20'') example_today ''rhythm'') = Inr 2"
    using t2 example_born_data(2,3) example_born_no_override(1) example_counters a by simp
  have k: "fst (get_difficulty (example_born ''2020-13-45'') example_today ''counting'') = Inr 7"
    using t3 example_born_data(2,3) example_born_no_override(2) example_counters a
      win_rate_nudge_all_won
    by simp
  have f: "\<exists>v. fst (get_difficulty (example_born ''2020-13-45'') example_today ''counting'') = Inr v
          \<and> 1 \<le> v \<and> v \<le> 10"
    using t3 example_born_data(3) c by simp
  from parse_birth_examples m a b d e k f example_born_data(1) show ?thesis by simp
qed

section \<open>Migration\<close>

lemma fold_add_if_missing:
  "fold (add_if_missing v) ks gs k = (if gs k = None \<and> k \<in> set ks then Some v else gs k)"
  by (induction ks arbitrary: gs) (auto simp add: add_if_missing_def)

lemma in_newest_game_types:
  "k \<in> set newest_game_types \<longleftrightarrow> k = ''staff_reading'' \<or> k = ''rhythm'' \<or> k = ''interval''"
  by (auto simp add: newest_game_types_def)

lemma migrate_data_migrated:
  assumes "games (data gp) = Some gs"
    and "gs ''staff_reading'' \<noteq> None \<and> gs ''rhythm'' \<noteq> None \<and> gs ''interval'' \<noteq> None"
  shows "migrate_data gp now = gp"
  using assms by (simp add: migrate_data_def)

lemma migrate_data_fill:
  assumes "games (data gp) = Some gs"
    and "\<not> (gs ''staff_reading'' \<noteq> None \<and> gs ''rhythm'' \<noteq> None \<and> gs ''interval'' \<noteq> None)"
  shows "migrate_data gp now =
     save_progress (gp\<lparr>data := (data gp)\<lparr>games := Some
       (fold (add_if_missing (case gs ''music_theory'' of
                                Some music_data \<Rightarrow> migrated_game_data music_data
                              | None \<Rightarrow> new_game_data))
          newest_game_types gs)\<rparr>\<rparr>) now"
  using assms by (auto simp add: migrate_data_def Let_def)

lemma games_migrate_data:
  assumes "games (data gp) = Some gs"
  shows "games (data (migrate_data gp now)) = Some
       (fold (add_if_missing (case gs ''music_theory'' of
                                Some music_data \<Rightarrow> migrated_game_data music_data
                              | None \<Rightarrow> new_game_data))
          newest_game_types gs)"
proof (cases "gs ''staff_reading'' \<noteq> None \<and> gs ''rhythm'' \<noteq> None \<and> gs ''interval'' \<noteq> None")
  case True
  have "fold (add_if_missing v) newest_game_types gs = gs" for v
    using True by (intro ext) (auto simp add: fold_add_if_missing in_newest_game_types)
  with True assms show ?thesis
    by (simp add: migrate_data_migrated)
next
  case False
  with assms show ?thesis
    by (simp add: migrate_data_fill)
qed

text \<open>
  On a profile that has its \<^verbatim>\<open>games\<close> mapping, migration is idempotent: a second run, at
  any later clock reading, leaves the profile data and the save file exactly as the
  first run left them, and a profile that already holds \<^verbatim>\<open>staff_reading\<close>, \<^verbatim>\<open>rhythm\<close> and
  \<^verbatim>\<open>interval\<close> is neither changed nor saved by the first run.
\<close>

lemma migrate_data_idempotent_with_games:
  assumes "games (data gp) = Some gs"
  shows "migrate_data (migrate_data gp now) now' = migrate_data gp now
       \<and> (gs ''staff_reading'' \<noteq> None \<and> gs ''rhythm'' \<noteq> None \<and> gs ''interval'' \<noteq> None
            \<longrightarrow> migrate_data gp now = gp)"
proof -
  let ?gs' = "fold (add_if_missing (case gs ''music_theory'' of
                                Some music_data \<Rightarrow> migrated_game_data music_data
                              | None \<Rightarrow> new_game_data))
          newest_game_types gs"
  have g: "games (data (migrate_data gp now)) = Some ?gs'"
    using assms by (rule games_migrate_data)
  have "?gs' ''staff_reading'' \<noteq> None \<and> ?gs' ''rhythm'' \<noteq> None \<and> ?gs' ''interval'' \<noteq> None"
    by (simp add: fold_add_if_missing in_newest_game_types)
  with g have "migrate_data (migrate_data gp now) now' = migrate_data gp now"
    by (rule migrate_data_migrated)
  with assms show ?thesis
    by (simp add: migrate_data_migrated)
qed

lemma migrate_data_idempotent_with_games_example:
  "games (data \<lparr>data = music_profile, save_file = Json (Dict music_profile)\<rparr>)
     = games music_profile
   \<and> games music_profile \<noteq> None
   \<and> migrate_data (migrate_data \<lparr>data = music_profile, save_file = Json (Dict music_profile)\<rparr> 5) 9
     = migrate_data \<lparr>data = music_profile, save_file = Json (Dict music_profile)\<rparr> 5
   \<and> migrate_data example_progress 5 = example_progress"
proof -
  have m: "games music_profile \<noteq> None"
    by (simp add: music_profile_def)
  then obtain gs where gs: "games music_profile = Some gs" by blast
  then have g1: "games (data \<lparr>data = music_profile, save_file = Json (Dict music_profile)\<rparr>) = Some gs"
    by simp
  have g2: "games (data example_progress) = Some (default_games(''counting'' \<mapsto> example_record))"
    by (simp add: example_progress_def example_profile_def)
  have d: "(default_games(''counting'' \<mapsto> example_record)) ''staff_reading'' \<noteq> None
         \<and> (default_games(''counting'' \<mapsto> example_record)) ''rhythm'' \<noteq> None
         \<and> (default_games(''counting'' \<mapsto> example_record)) ''interval'' \<noteq> None"
    by (simp add: default_games_def)
  from migrate_data_idempotent_with_games[OF g1, of 5 9]
    migrate_data_idempotent_with_games[OF g2, of 5 9] d m
  show ?thesis by simp
qed

text \<open>
  Without a \<^verbatim>\<open>games\<close> key the method fills the fresh dict that \<^verbatim>\<open>.get('games', {})\<close> returned
  and never stores it in \<^verbatim>\<open>self.data\<close>: every run only refreshes \<^verbatim>\<open>last_played\<close> and saves.
\<close>

lemma migrate_data_without_games:
  assumes "games (data gp) = None"
  shows "migrate_data gp now = save_progress gp now"
  using assms by (simp add: migrate_data_def Let_def)

text \<open>
  Claim C9 fails on the program at a save file that holds a JSON object without the key
  \<^verbatim>\<open>games\<close>. \<^verbatim>\<open>GameProgress\<close> loads it and migrates it; the three newest game types are
  written to a dict that is dropped, so the guard of line 98 never finds them: a second
  \<^verbatim>\<open>_migrate_data\<close> run saves again and moves \<^verbatim>\<open>last_played\<close> from the first clock reading
  to the second. Two runs do not leave the profile as one run does, and the profile
  still has no \<^verbatim>\<open>games\<close> entry after either.
\<close>

theorem migrate_data_repeats_without_games:
  "init_progress (Json (Dict no_games_profile)) 5 = Inr (migrate_data no_games_progress 5)
   \<and> games (data (migrate_data no_games_progress 5)) = None
   \<and> last_played (data (migrate_data no_games_progress 5)) = Some 5
   \<and> last_played (data (migrate_data (migrate_data no_games_progress 5) 9)) = Some 9
   \<and> migrate_data (migrate_data no_games_progress 5) 9 \<noteq> migrate_data no_games_progress 5"
proof -
  have g: "games (data no_games_progress) = None"
    by (simp add: no_games_progress_def no_games_profile_def)
  have i: "init_progress (Json (Dict no_games_profile)) 5 = Inr (migrate_data no_games_progress 5)"
    by (simp add: init_progress_def load_progress_def no_games_progress_def)
  have once: "migrate_data no_games_progress 5 = save_progress no_games_progress 5"
    using g by (rule migrate_data_without_games)
  have g1: "games (data (save_progress no_games_progress 5)) = None"
    using g by simp
  have twice: "migrate_data (save_progress no_games_progress 5) 9
               = save_progress (save_progress no_games_progress 5) 9"
    using g1 by (rule migrate_data_without_games)
  have l1: "last_played (data (save_progress no_games_progress 5)) = Some 5"
    by (simp add: save_progress_def Let_def)
  have l2: "last_played (data (save_progress (save_progress no_games_progress 5) 9)) = Some 9"
    by (simp add: save_progress_def Let_def)
  from l1 l2 have "save_progress (save_progress no_games_progress 5) 9
                   \<noteq> save_progress no_games_progress 5"
    by auto
  with i once twice g1 l1 l2 show ?thesis by simp
qed

section \<open>Initialisation\<close>

lemma dom_default_games: "dom default_games = set known_game_types"
  by (auto simp add: default_games_def known_game_types_def split: if_splits)

lemma init_progress_default:
  assumes "f = No_file \<or> f = Unreadable"
  shows "init_progress f now = Inr \<lparr>data = default_data now, save_file = f\<rparr>"
proof -
  have g: "games (data \<lparr>data = default_data now, save_file = f\<rparr>) = Some default_games"
    by (simp add: default_data_def)
  have "default_games ''staff_reading'' \<noteq> None \<and> default_games ''rhythm'' \<noteq> None
        \<and> default_games ''interval'' \<noteq> None"
    by (simp add: default_games_def)
  with g have "migrate_data \<lparr>data = default_data now, save_file = f\<rparr> now
               = \<lparr>data = default_data now, save_file = f\<rparr>"
    by (rule migrate_data_migrated)
  with assms show ?thesis
    by (auto simp add: init_progress_def load_progress_def)
qed

lemma migrated_game_data_fields:
  "history (migrated_game_data md) = Some []"
  "games_played md = Some n \<Longrightarrow> games_played (migrated_game_data md) = Some (n div 3)"
  "games_won md = Some w \<Longrightarrow> games_won (migrated_game_data md) = Some (w div 3)"
  by (simp_all add: migrated_game_data_def)

text \<open>
  Claim C2, as the program has it. After \<^verbatim>\<open>GameProgress\<close> initialisation from an absent or
  unreadable save file, \<^verbatim>\<open>games\<close> is the default mapping, whose keys are the seven known
  game-type ids. After initialisation from a save file holding a JSON object with a
  \<^verbatim>\<open>games\<close> mapping \<open>gs\<close>, the keys of \<^verbatim>\<open>games\<close> are those of \<open>gs\<close> together with
  \<^verbatim>\<open>staff_reading\<close>, \<^verbatim>\<open>rhythm\<close> and \<^verbatim>\<open>interval\<close>: entries of \<open>gs\<close> are kept, and each of the
  three newest ids that \<open>gs\<close> lacks is back-filled, from the \<^verbatim>\<open>music_theory\<close> record when
  there is one (counters divided by 3 with floor division, empty history) and with the
  zeroed record otherwise. The four older ids are not back-filled: all seven ids are
  present exactly when \<open>gs\<close> already had \<^verbatim>\<open>find_difference\<close>, \<^verbatim>\<open>counting\<close>, \<^verbatim>\<open>simple_math\<close> and
  \<^verbatim>\<open>music_theory\<close>.
\<close>

theorem init_backfills_newest_game_types:
  "(f = No_file \<or> f = Unreadable \<longrightarrow>
      (\<exists>gp. init_progress f now = Inr gp \<and> games (data gp) = Some default_games
          \<and> dom default_games = set known_game_types))
   \<and> (f = Json (Dict p) \<and> games p = Some gs \<longrightarrow>
      (\<exists>gp gs'. init_progress f now = Inr gp \<and> games (data gp) = Some gs'
          \<and> dom gs' = dom gs \<union> {''staff_reading'', ''rhythm'', ''interval''}
          \<and> (\<forall>k. gs k \<noteq> None \<longrightarrow> gs' k = gs k)
          \<and> (\<forall>k \<in> {''staff_reading'', ''rhythm'', ''interval''}. gs k = None \<longrightarrow>
                gs' k = Some (case gs ''music_theory'' of
                                Some music_data \<Rightarrow> migrated_game_data music_data
                              | None \<Rightarrow> new_game_data))
          \<and> (set known_game_types \<subseteq> dom gs' \<longleftrightarrow>
                {''find_difference'', ''counting'', ''simple_math'', ''music_theory''} \<subseteq> dom gs)))
   \<and> history (migrated_game_data md) = Some []
   \<and> (games_played md = Some n \<longrightarrow> games_played (migrated_game_data md) = Some (n div 3))
   \<and> (games_won md = Some w \<longrightarrow> games_won (migrated_game_data md) = Some (w div 3))"
proof -
  have absent: "\<exists>gp. init_progress f now = Inr gp \<and> games (data gp) = Some default_games
          \<and> dom default_games = set known_game_types"
    if "f = No_file \<or> f = Unreadable"
    using init_progress_default[OF that, of now] dom_default_games
    by (simp add: default_data_def)
  have loaded: "\<exists>gp gs'. init_progress f now = Inr gp \<and> games (data gp) = Some gs'
          \<and> dom gs' = dom gs \<union> {''staff_reading'', ''rhythm'', ''interval''}
          \<and> (\<forall>k. gs k \<noteq> None \<longrightarrow> gs' k = gs k)
          \<and> (\<forall>k \<in> {''staff_reading'', ''rhythm'', ''interval''}. gs k = None \<longrightarrow>
                gs' k = Some (case gs ''music_theory'' of
                                Some music_data \<Rightarrow> migrated_game_data music_data
                              | None \<Rightarrow> new_game_data))
          \<and> (set known_game_types \<subseteq> dom gs' \<longleftrightarrow>
                {''find_difference'', ''counting'', ''simple_math'', ''music_theory''} \<subseteq> dom gs)"
    if f: "f = Json (Dict p)" and g: "games p = Some gs"
  proof -
    let ?v = "case gs ''music_theory'' of
                Some music_data \<Rightarrow> migrated_game_data music_data
              | None \<Rightarrow> new_game_data"
    let ?gs' = "fold (add_if_missing ?v) newest_game_types gs"
    let ?gp = "migrate_data \<lparr>data = p, save_file = f\<rparr> now"
    have i: "init_progress f now = Inr ?gp"
      using f by (simp add: init_progress_def load_progress_def)
    have "games (data \<lparr>data = p, save_file = f\<rparr>) = Some gs"
      using g by simp
    then have g': "games (data ?gp) = Some ?gs'"
      by (rule games_migrate_data)
    have at: "?gs' k = (if gs k = None \<and> (k = ''staff_reading'' \<or> k = ''rhythm'' \<or> k = ''interval'')
                        then Some ?v else gs k)" for k
      by (simp add: fold_add_if_missing in_newest_game_types)
    have d: "dom ?gs' = dom gs \<union> {''staff_reading'', ''rhythm'', ''interval''}"
      by (auto simp add: dom_def at)
    have k: "set known_game_types \<subseteq> dom ?gs' \<longleftrightarrow>
                {''find_difference'', ''counting'', ''simple_math'', ''music_theory''} \<subseteq> dom gs"
      unfolding d by (auto simp add: known_game_types_def)
    from i g' d k at show ?thesis
      by (intro exI[of _ ?gp] exI[of _ ?gs']) simp
  qed
  from absent loaded show ?thesis
    by (simp add: migrated_game_data_fields)
qed


lemma pre_music_init:
  "init_progress (Json (Dict pre_music_profile)) 0 =
     Inr (migrate_data \<lparr>data = pre_music_profile, save_file = Json (Dict pre_music_profile)\<rparr> 0)"
  by (simp add: init_progress_def load_progress_def)

lemma pre_music_games_after:
  "games (data (migrate_data \<lparr>data = pre_music_profile,
                              save_file = Json (Dict pre_music_profile)\<rparr> 0))
   = Some (fold (add_if_missing new_game_data) newest_game_types pre_music_games)"
proof -
  have "games (data \<lparr>data = pre_music_profile, save_file = Json (Dict pre_music_profile)\<rparr>)
        = Some pre_music_games"
    by (simp add: pre_music_profile_def)
  from games_migrate_data[OF this, of 0] show ?thesis
    by (simp add: pre_music_games_def)
qed

text \<open>
  Claim C2 as stated fails. A save file written before \<^verbatim>\<open>music_theory\<close> existed holds the
  three oldest game types; the \<^verbatim>\<open>else\<close> branch of \<^verbatim>\<open>_migrate_data\<close> adds the three newest
  ids and nothing else, so after initialisation \<^verbatim>\<open>music_theory\<close> has no entry.
\<close>

theorem init_leaves_music_theory_missing:
  "init_present_game_types (Json (Dict pre_music_profile)) 0
     = Inr [''find_difference'', ''counting'', ''simple_math'',
            ''staff_reading'', ''rhythm'', ''interval'']
   \<and> init_present_game_types (Json (Dict pre_music_profile)) 0 \<noteq> Inr known_game_types"
  by (simp add: init_present_game_types_def pre_music_init present_game_types_def
      pre_music_games_after fold_add_if_missing in_newest_game_types known_game_types_def
      pre_music_games_def)


theorem init_backfills_newest_game_types_witness:
  "(\<exists>gp. init_progress No_file 0 = Inr gp \<and> games (data gp) = Some default_games
        \<and> dom default_games = set known_game_types)
   \<and> games music_profile = Some music_games
   \<and> (\<exists>gp gs' r. init_progress (Json (Dict music_profile)) 0 = Inr gp
        \<and> games (data gp) = Some gs'
        \<and> set known_game_types \<subseteq> dom gs'
        \<and> gs' ''counting'' = music_games ''counting''
        \<and> gs' ''rhythm'' = Some r \<and> games_played r = Some 3 \<and> games_won r = Some 2
        \<and> history r = Some [])"
proof -
  define md where "md = new_game_data\<lparr>games_played := Some 10, games_won := Some 7,
                            current_difficulty := Some 4\<rparr>"
  have g: "games music_profile = Some music_games"
    by (simp add: music_profile_def)
  have m1: "music_games ''music_theory'' = Some md"
    by (simp add: music_games_def md_def)
  have m2: "music_games ''rhythm'' = None"
    by (simp add: music_games_def)
  have m3: "music_games ''counting'' \<noteq> None"
    by (simp add: music_games_def)
  have m4: "{''find_difference'', ''counting'', ''simple_math'', ''music_theory''} \<subseteq> dom music_games"
    by (simp add: music_games_def)
  have f: "games_played md = Some 10" "games_won md = Some 7"
    by (simp_all add: md_def)
  note t1 = init_backfills_newest_game_types[where f = No_file and now = 0]
  note t2 = init_backfills_newest_game_types[where f = "Json (Dict music_profile)" and now = 0
      and p = music_profile and gs = music_games and md = md and n = 10 and w = 7]
  have a: "\<exists>gp. init_progress No_file 0 = Inr gp \<and> games (data gp) = Some default_games
        \<and> dom default_games = set known_game_types"
    by (rule t1[THEN conjunct1, rule_format]) simp
  note l = t2[THEN conjunct2, THEN conjunct1, rule_format, OF conjI[OF refl g]]
  note h = t2[THEN conjunct2, THEN conjunct2, THEN conjunct1]
  note p = t2[THEN conjunct2, THEN conjunct2, THEN conjunct2, THEN conjunct1, rule_format, OF f(1)]
  note q = t2[THEN conjunct2, THEN conjunct2, THEN conjunct2, THEN conjunct2, rule_format, OF f(2)]
  from l obtain gp gs' where
    r: "init_progress (Json (Dict music_profile)) 0 = Inr gp
          \<and> games (data gp) = Some gs'
          \<and> dom gs' = dom music_games \<union> {''staff_reading'', ''rhythm'', ''interval''}
          \<and> (\<forall>k. music_games k \<noteq> None \<longrightarrow> gs' k = music_games k)
          \<and> (\<forall>k \<in> {''staff_reading'', ''rhythm'', ''interval''}. music_games k = None \<longrightarrow>
                gs' k = Some (case music_games ''music_theory'' of
                                Some music_data \<Rightarrow> migrated_game_data music_data
                              | None \<Rightarrow> new_game_data))
          \<and> (set known_game_types \<subseteq> dom gs' \<longleftrightarrow>
                {''find_difference'', ''counting'', ''simple_math'', ''music_theory''}
                  \<subseteq> dom music_games)"
    by (elim exE)
  note r1 = r[THEN conjunct1]
  note r2 = r[THEN conjunct2, THEN conjunct1]
  note r3 = r[THEN conjunct2, THEN conjunct2, THEN conjunct2, THEN conjunct1, rule_format]
  note r4 = r[THEN conjunct2, THEN conjunct2, THEN conjunct2, THEN conjunct2, THEN conjunct1,
      rule_format]
  note r5 = r[THEN conjunct2, THEN conjunct2, THEN conjunct2, THEN conjunct2, THEN conjunct2]
  have "gs' ''rhythm'' = Some (case music_games ''music_theory'' of
                                Some music_data \<Rightarrow> migrated_game_data music_data
                              | None \<Rightarrow> new_game_data)"
    by (rule r4) (simp_all add: m2)
  then have rh: "gs' ''rhythm'' = Some (migrated_game_data md)"
    by (simp add: m1)
  have cn: "gs' ''counting'' = music_games ''counting''"
    using m3 by (rule r3)
  from r5 m4 have kn: "set known_game_types \<subseteq> dom gs'" by simp
  have "\<exists>gp gs' r. init_progress (Json (Dict music_profile)) 0 = Inr gp
        \<and> games (data gp) = Some gs'
        \<and> set known_game_types \<subseteq> dom gs'
        \<and> gs' ''counting'' = music_games ''counting''
        \<and> gs' ''rhythm'' = Some r \<and> games_played r = Some 3 \<and> games_won r = Some 2
        \<and> history r = Some []"
    using r1 r2 kn cn rh p q h
    by (intro exI[of _ gp] exI[of _ gs'] exI[of _ "migrated_game_data md"]) simp
  with a g show ?thesis by simp
qed

section \<open>Rewards\<close>

lemma reward_coins_steps:
  assumes "round_double (of_int d) = a" and "float_finite a"
    and "round_double (a * float_lit (1 / 10)) = x"
    and "round_double (1 + x) = y"
    and "round_double (10 * y) = z" and "float_finite z"
    and "int_of_float z = c"
  shows "reward_coins d = Inr c"
  using assms by (simp add: reward_coins_def float_of_int_def)

lemma float_finite_upto_20:
  "float_finite 1" "float_finite 2" "float_finite 3" "float_finite 4" "float_finite 5"
  "float_finite 6" "float_finite 7" "float_finite 8" "float_finite 9" "float_finite 10"
  "float_finite 11" "float_finite 12" "float_finite 13" "float_finite 14" "float_finite 15"
  "float_finite 16" "float_finite 17" "float_finite 18" "float_finite 19" "float_finite 20"
  by (simp_all add: float_finite_def)

lemma int_of_float_upto_20:
  "int_of_float 11 = 11" "int_of_float 12 = 12" "int_of_float 13 = 13" "int_of_float 14 = 14"
  "int_of_float 15 = 15" "int_of_float 16 = 16" "int_of_float 17 = 17" "int_of_float 18 = 18"
  "int_of_float 19 = 19" "int_of_float 20 = 20"
  by (simp_all add: int_of_float_def)

lemma reward_coins_one: "reward_coins 1 = Inr 11"
proof (rule reward_coins_steps[where a = 1 and x = "3602879701896397 / 36028797018963968" and y = "2476979795053773 / 2251799813685248" and z = 11])
  show "round_double (rat_of_int 1) = 1" by code_simp
  show "round_double (1 * float_lit (1 / 10)) = 3602879701896397 / 36028797018963968" by code_simp
  show "round_double (1 + 3602879701896397 / 36028797018963968) = 2476979795053773 / 2251799813685248" by code_simp
  show "round_double (10 * (2476979795053773 / 2251799813685248)) = 11" by code_simp
qed (simp_all add: float_finite_upto_20 int_of_float_upto_20)

lemma reward_coins_two: "reward_coins 2 = Inr 12"
proof (rule reward_coins_steps[where a = 2 and x = "3602879701896397 / 18014398509481984" and y = "5404319552844595 / 4503599627370496" and z = 12])
  show "round_double (rat_of_int 2) = 2" by code_simp
  show "round_double (2 * float_lit (1 / 10)) = 3602879701896397 / 18014398509481984" by code_simp
  show "round_double (1 + 3602879701896397 / 18014398509481984) = 5404319552844595 / 4503599627370496" by code_simp
  show "round_double (10 * (5404319552844595 / 4503599627370496)) = 12" by code_simp
qed (simp_all add: float_finite_upto_20 int_of_float_upto_20)

lemma reward_coins_three: "reward_coins 3 = Inr 13"
proof (rule reward_coins_steps[where a = 3 and x = "1351079888211149 / 4503599627370496" and y = "5854679515581645 / 4503599627370496" and z = 13])
  show "round_double (rat_of_int 3) = 3" by code_simp
  show "round_double (3 * float_lit (1 / 10)) = 1351079888211149 / 4503599627370496" by code_simp
  show "round_double (1 + 1351079888211149 / 4503599627370496) = 5854679515581645 / 4503599627370496" by code_simp
  show "round_double (10 * (5854679515581645 / 4503599627370496)) = 13" by code_simp
qed (simp_all add: float_finite_upto_20 int_of_float_upto_20)

lemma reward_coins_four: "reward_coins 4 = Inr 14"
proof (rule reward_coins_steps[where a = 4 and x = "3602879701896397 / 9007199254740992" and y = "3152519739159347 / 2251799813685248" and z = 14])
  show "round_double (rat_of_int 4) = 4" by code_simp
  show "round_double (4 * float_lit (1 / 10)) = 3602879701896397 / 9007199254740992" by code_simp
  show "round_double (1 + 3602879701896397 / 9007199254740992) = 3152519739159347 / 2251799813685248" by code_simp
  show "round_double (10 * (3152519739159347 / 2251799813685248)) = 14" by code_simp
qed (simp_all add: float_finite_upto_20 int_of_float_upto_20)

lemma reward_coins_five: "reward_coins 5 = Inr 15"
proof (rule reward_coins_steps[where a = 5 and x = "1 / 2" and y = "3 / 2" and z = 15])
  show "round_double (rat_of_int 5) = 5" by code_simp
  show "round_double (5 * float_lit (1 / 10)) = 1 / 2" by code_simp
  show "round_double (1 + 1 / 2) = 3 / 2" by code_simp
  show "round_double (10 * (3 / 2)) = 15" by code_simp
qed (simp_all add: float_finite_upto_20 int_of_float_upto_20)

lemma reward_coins_six: "reward_coins 6 = Inr 16"
proof (rule reward_coins_steps[where a = 6 and x = "1351079888211149 / 2251799813685248" and y = "3602879701896397 / 2251799813685248" and z = 16])
  show "round_double (rat_of_int 6) = 6" by code_simp
  show "round_double (6 * float_lit (1 / 10)) = 1351079888211149 / 2251799813685248" by code_simp
  show "round_double (1 + 1351079888211149 / 2251799813685248) = 3602879701896397 / 2251799813685248" by code_simp
  show "round_double (10 * (3602879701896397 / 2251799813685248)) = 16" by code_simp
qed (simp_all add: float_finite_upto_20 int_of_float_upto_20)

lemma reward_coins_seven: "reward_coins 7 = Inr 17"
proof (rule reward_coins_steps[where a = 7 and x = "6305039478318695 / 9007199254740992" and y = "1914029841632461 / 1125899906842624" and z = 17])
  show "round_double (rat_of_int 7) = 7" by code_simp
  show "round_double (7 * float_lit (1 / 10)) = 6305039478318695 / 9007199254740992" by code_simp
  show "round_double (1 + 6305039478318695 / 9007199254740992) = 1914029841632461 / 1125899906842624" by code_simp
  show "round_double (10 * (1914029841632461 / 1125899906842624)) = 17" by code_simp
qed (simp_all add: float_finite_upto_20 int_of_float_upto_20)

lemma reward_coins_eight: "reward_coins 8 = Inr 18"
proof (rule reward_coins_steps[where a = 8 and x = "3602879701896397 / 4503599627370496" and y = "8106479329266893 / 4503599627370496" and z = 18])
  show "round_double (rat_of_int 8) = 8" by code_simp
  show "round_double (8 * float_lit (1 / 10)) = 3602879701896397 / 4503599627370496" by code_simp
  show "round_double (1 + 3602879701896397 / 4503599627370496) = 8106479329266893 / 4503599627370496" by code_simp
  show "round_double (10 * (8106479329266893 / 4503599627370496)) = 18" by code_simp
qed (simp_all add: float_finite_upto_20 int_of_float_upto_20)

lemma reward_coins_nine: "reward_coins 9 = Inr 19"
proof (rule reward_coins_steps[where a = 9 and x = "8106479329266893 / 9007199254740992" and y = "4278419646001971 / 2251799813685248" and z = 19])
  show "round_double (rat_of_int 9) = 9" by code_simp
  show "round_double (9 * float_lit (1 / 10)) = 8106479329266893 / 9007199254740992" by code_simp
  show "round_double (1 + 8106479329266893 / 9007199254740992) = 4278419646001971 / 2251799813685248" by code_simp
  show "round_double (10 * (4278419646001971 / 2251799813685248)) = 19" by code_simp
qed (simp_all add: float_finite_upto_20 int_of_float_upto_20)

lemma reward_coins_ten: "reward_coins 10 = Inr 20"
proof (rule reward_coins_steps[where a = 10 and x = "1" and y = "2" and z = 20])
  show "round_double (rat_of_int 10) = 10" by code_simp
  show "round_double (10 * float_lit (1 / 10)) = 1" by code_simp
  show "round_double (1 + 1) = 2" by code_simp
  show "round_double (10 * (2)) = 20" by code_simp
qed (simp_all add: float_finite_upto_20 int_of_float_upto_20)

lemma reward_coins_in_range:
  assumes "1 \<le> d" and "d \<le> 10"
  shows "reward_coins d = Inr (10 + d)"
proof -
  from assms have "d = 1 \<or> d = 2 \<or> d = 3 \<or> d = 4 \<or> d = 5
    \<or> d = 6 \<or> d = 7 \<or> d = 8 \<or> d = 9 \<or> d = 10"
    by arith
  then show ?thesis
    by (elim disjE)
      (simp_all add: reward_coins_one reward_coins_two reward_coins_three reward_coins_four
        reward_coins_five reward_coins_six reward_coins_seven reward_coins_eight
        reward_coins_nine reward_coins_ten)
qed

lemma exact_reward: "\<lfloor>10 * (1 + of_int d * (1 / 10 :: rat))\<rfloor> = 10 + d"
proof -
  have "10 * (1 + of_int d * (1 / 10 :: rat)) = of_int (10 + d)"
    by simp
  then show ?thesis
    by (simp only: floor_of_int)
qed

lemma spec_post_game_difficulty_range:
  assumes "1 \<le> old" and "old \<le> 10"
  shows "1 \<le> spec_post_game_difficulty old hist" "spec_post_game_difficulty old hist \<le> 10"
  using assms by (auto simp add: spec_post_game_difficulty_def Let_def)

lemma add_coins_Inr:
  assumes "add_coins gp amount now = Inr gp'"
  shows "\<exists>c. total_coins (data gp) = Some c \<and> total_coins (data gp') = Some (c + amount)"
    and "total_stars (data gp') = total_stars (data gp)"
    and "games (data gp') = games (data gp)"
  using assms
  by (auto simp add: add_coins_def bind_err_eq_Inr save_progress_def Let_def)

lemma add_stars_Inr:
  assumes "add_stars gp amount now = Inr gp'"
  shows "\<exists>c. total_stars (data gp) = Some c \<and> total_stars (data gp') = Some (c + amount)"
    and "total_coins (data gp') = total_coins (data gp)"
    and "games (data gp') = games (data gp)"
  using assms
  by (auto simp add: add_stars_def bind_err_eq_Inr save_progress_def Let_def)

lemma update_game_result_totals:
  assumes "update_game_result gp g won score time_taken details now = Inr gp'"
  shows "total_coins (data gp') = total_coins (data gp)"
    and "total_stars (data gp') = total_stars (data gp)"
proof -
  from assms obtain gs gd played cur hist where
    "gp' = save_progress (game_store gp g
           (recorded gd played cur hist won
              (new_history_entry now won score time_taken cur details))) now"
    by (rule update_game_result_cases)
  then show "total_coins (data gp') = total_coins (data gp)"
    and "total_stars (data gp') = total_stars (data gp)"
    by (simp_all add: save_progress_def game_store_def Let_def)
qed

lemma stored_same_games:
  assumes "games (data gp') = games (data gp)"
  shows "stored_difficulty gp' g = stored_difficulty gp g"
    and "stored_history gp' g = stored_history gp g"
  using assms by (simp_all add: stored_difficulty_def stored_history_def game_lookup_def)

lemma update_game_result_adjusted:
  assumes "update_game_result gp g won score time_taken details now = Inr gp'"
    and "stored_difficulty gp g = Inr old"
  shows "\<exists>hist'. stored_history gp' g = Inr hist'
           \<and> stored_difficulty gp' g = Inr (spec_post_game_difficulty old hist')"
proof -
  from assms(1) obtain gs gd played cur hist where
    h: "games (data gp) = Some gs" "gs g = Some gd" "current_difficulty gd = Some cur"
    and gp': "gp' = save_progress (game_store gp g
           (recorded gd played cur hist won
              (new_history_entry now won score time_taken cur details))) now"
    by (rule update_game_result_cases)
  from assms(2) h have "cur = old"
    by (simp add: stored_eq_Inr)
  then show ?thesis
    using h(1) by (simp add: gp' stored_after_update recorded_def)
qed

lemma end_game_cases:
  assumes "current_game gm = Some cg" and "end_game gm won score details now = Inr gm'"
  obtains tt gp1 where
    "py_truediv (now - cg_start_time cg) 1000000 = Inr tt"
    and "update_game_result (progress gm) (cg_type cg) won score tt details now = Inr gp1"
    and "if won
         then \<exists>d' coins gp2 gp3.
                stored_difficulty gp1 (cg_type cg) = Inr d' \<and> reward_coins d' = Inr coins
              \<and> add_coins gp1 coins now = Inr gp2
              \<and> add_stars gp2 (reward_stars score) now = Inr gp3
              \<and> gm' = gm\<lparr>progress := gp3, current_game := None\<rparr>
         else gm' = gm\<lparr>progress := gp1, current_game := None\<rparr>"
  using assms by (auto simp add: end_game_def bind_err_eq_Inr split: if_splits)


lemma round_double_three: "round_double 3 = 3"
  by code_simp

lemma example_progress_update_any:
  "update_game_result example_progress ''counting'' True score time_taken None now =
     Inr (save_progress (game_store example_progress ''counting''
       (recorded example_record 4 5 (replicate 4 (example_entry True)) True
          (new_history_entry now True score time_taken 5 None))) now)"
  by (rule update_game_result_complete[where gs = "default_games(''counting'' \<mapsto> example_record)"])
     (simp_all add: example_progress_def example_profile_def example_record_def)

lemma spec_example_any:
  "spec_post_game_difficulty 5 (py_last_n 50 (replicate 4 (example_entry True)
     @ [new_history_entry now True score time_taken 5 None])) = 6"
  by (simp add: spec_post_game_difficulty_def py_last_n_def new_history_entry_def
      example_entry_def numeral_eq_Suc)

lemma example_end_game:
  "\<exists>gm'. end_game example_manager True 95 None 3000000 = Inr gm'
     \<and> total_coins (data (progress gm')) = Some 16
     \<and> total_stars (data (progress gm')) = Some 3
     \<and> stored_difficulty (progress gm') ''counting'' = Inr 6"
proof -
  define gp1 where "gp1 = save_progress (game_store example_progress ''counting''
       (recorded example_record 4 5 (replicate 4 (example_entry True)) True
          (new_history_entry 3000000 True 95 3 5 None))) 3000000"
  define gp2 where "gp2 = save_progress (gp1\<lparr>data := (data gp1)\<lparr>total_coins := Some 16\<rparr>\<rparr>) 3000000"
  define gp3 where "gp3 = save_progress (gp2\<lparr>data := (data gp2)\<lparr>total_stars := Some 3\<rparr>\<rparr>) 3000000"
  have tt: "py_truediv 3000000 1000000 = Inr 3"
    by (simp add: py_truediv_def round_double_three float_finite_upto_20)
  have u: "update_game_result example_progress ''counting'' True 95 3 None 3000000 = Inr gp1"
    unfolding gp1_def by (rule example_progress_update_any)
  have g: "games (data example_progress) = Some (default_games(''counting'' \<mapsto> example_record))"
    by (simp add: example_progress_def example_profile_def)
  have d1: "stored_difficulty gp1 ''counting'' = Inr 6"
    by (simp add: gp1_def stored_after_update[OF g] recorded_def spec_example_any)
  have c1: "total_coins (data gp1) = Some 0" "total_stars (data gp1) = Some 0"
    by (simp_all add: gp1_def save_progress_def game_store_def Let_def example_progress_def
        example_profile_def default_data_def)
  have ac: "add_coins gp1 16 3000000 = Inr gp2"
    by (simp add: add_coins_def c1 gp2_def)
  have s2: "total_stars (data gp2) = Some 0" "total_coins (data gp2) = Some 16"
    "games (data gp2) = games (data gp1)"
    by (simp_all add: gp2_def save_progress_def Let_def c1)
  have as: "add_stars gp2 3 3000000 = Inr gp3"
    by (simp add: add_stars_def s2 gp3_def)
  have s3: "total_stars (data gp3) = Some 3" "total_coins (data gp3) = Some 16"
    "games (data gp3) = games (data gp1)"
    by (simp_all add: gp3_def save_progress_def Let_def s2)
  have d3: "stored_difficulty gp3 ''counting'' = Inr 6"
    using stored_same_games(1)[OF s3(3)] d1 by simp
  have "end_game example_manager True 95 None 3000000
        = Inr (example_manager\<lparr>progress := gp3, current_game := None\<rparr>)"
    by (simp add: end_game_def example_manager_def tt u d1 reward_coins_six ac as
        reward_stars_def)
  with s3 d3 show ?thesis by simp
qed

lemma example_end_game_lost:
  "\<exists>gm'. end_game example_manager False 100 None 3000000 = Inr gm'"
proof -
  have tt: "py_truediv 3000000 1000000 = Inr 3"
    by (simp add: py_truediv_def round_double_three float_finite_upto_20)
  have "\<exists>gp1. update_game_result example_progress ''counting'' False 100 3 None 3000000 = Inr gp1"
    by (rule exI, rule update_game_result_complete[where
          gs = "default_games(''counting'' \<mapsto> example_record)" and gd = example_record
          and played = 4 and cur = 5 and hist = "replicate 4 (example_entry True)"])
       (simp_all add: example_progress_def example_profile_def example_record_def)
  then obtain gp1 where
    "update_game_result example_progress ''counting'' False 100 3 None 3000000 = Inr gp1" ..
  then show ?thesis
    by (simp add: end_game_def example_manager_def tt)
qed

text \<open>
  Claim C1, as the program has it. Let an \<^verbatim>\<open>end_game\<close> call with a running session return,
  on a game type whose stored \<^verbatim>\<open>current_difficulty\<close> lies in 1..10. The result is recorded
  first, so the post-game adjustment has already run when the reward is computed: with
  \<open>d'\<close> the \<^verbatim>\<open>current_difficulty\<close> stored after the call (the adjusted value, again in
  1..10, equal to the difficulty before the call whenever the rule leaves it unchanged),
  a won game adds \<open>floor (10 * (1 + d' * 0.1))\<close> coins, computed by the program in binary64
  and equal to \<open>10 + d'\<close>, and 3 stars for a score of 90 or more, 2 stars for a score of
  70 or more, 1 star otherwise; a lost game leaves coins and stars unchanged. The
  session is cleared.
\<close>

theorem end_game_rewards:
  assumes "current_game gm = Some cg"
    and "end_game gm won score details now = Inr gm'"
    and "stored_difficulty (progress gm) (cg_type cg) = Inr d" and "1 \<le> d" and "d \<le> 10"
  shows "\<exists>d' hist'.
           stored_history (progress gm') (cg_type cg) = Inr hist'
         \<and> stored_difficulty (progress gm') (cg_type cg) = Inr d'
         \<and> d' = spec_post_game_difficulty d hist' \<and> 1 \<le> d' \<and> d' \<le> 10
         \<and> current_game gm' = None
         \<and> (if won
            then \<exists>c s. total_coins (data (progress gm)) = Some c
                     \<and> total_stars (data (progress gm)) = Some s
                     \<and> total_coins (data (progress gm'))
                         = Some (c + \<lfloor>10 * (1 + of_int d' * (1 / 10 :: rat))\<rfloor>)
                     \<and> total_stars (data (progress gm'))
                         = Some (s + (if 90 \<le> score then 3 else if 70 \<le> score then 2 else 1))
            else total_coins (data (progress gm')) = total_coins (data (progress gm))
               \<and> total_stars (data (progress gm')) = total_stars (data (progress gm)))"
proof -
  from assms(1,2) obtain tt gp1 where
    u: "update_game_result (progress gm) (cg_type cg) won score tt details now = Inr gp1"
    and w: "if won
         then \<exists>d' coins gp2 gp3.
                stored_difficulty gp1 (cg_type cg) = Inr d' \<and> reward_coins d' = Inr coins
              \<and> add_coins gp1 coins now = Inr gp2
              \<and> add_stars gp2 (reward_stars score) now = Inr gp3
              \<and> gm' = gm\<lparr>progress := gp3, current_game := None\<rparr>
         else gm' = gm\<lparr>progress := gp1, current_game := None\<rparr>"
    by (rule end_game_cases)
  from update_game_result_adjusted[OF u assms(3)] obtain hist' where
    h1: "stored_history gp1 (cg_type cg) = Inr hist'"
    and d1: "stored_difficulty gp1 (cg_type cg) = Inr (spec_post_game_difficulty d hist')"
    by blast
  let ?d' = "spec_post_game_difficulty d hist'"
  have r: "1 \<le> ?d'" "?d' \<le> 10"
    using assms(4,5) by (rule spec_post_game_difficulty_range)+
  note t = update_game_result_totals[OF u]
  show ?thesis
  proof (cases won)
    case False
    with w have "gm' = gm\<lparr>progress := gp1, current_game := None\<rparr>" by simp
    with False h1 d1 r t show ?thesis by simp
  next
    case True
    with w d1 obtain coins gp2 gp3 where
      rc: "reward_coins ?d' = Inr coins"
      and ac: "add_coins gp1 coins now = Inr gp2"
      and as: "add_stars gp2 (reward_stars score) now = Inr gp3"
      and gm': "gm' = gm\<lparr>progress := gp3, current_game := None\<rparr>"
      by auto
    from rc reward_coins_in_range[OF r] have coins: "coins = 10 + ?d'" by simp
    from add_coins_Inr[OF ac] t obtain c where
      c: "total_coins (data (progress gm)) = Some c" "total_coins (data gp2) = Some (c + coins)"
      and s2: "total_stars (data gp2) = total_stars (data (progress gm))"
      and g2: "games (data gp2) = games (data gp1)"
      by auto
    from add_stars_Inr[OF as] s2 obtain s where
      s: "total_stars (data (progress gm)) = Some s"
         "total_stars (data gp3) = Some (s + reward_stars score)"
      and c3: "total_coins (data gp3) = total_coins (data gp2)"
      and g3: "games (data gp3) = games (data gp2)"
      by auto
    from g2 g3 have "games (data gp3) = games (data gp1)" by simp
    from stored_same_games[OF this] h1 d1 have
      hd: "stored_history gp3 (cg_type cg) = Inr hist'"
          "stored_difficulty gp3 (cg_type cg) = Inr ?d'"
      by simp_all
    have "\<exists>c s. total_coins (data (progress gm)) = Some c
                     \<and> total_stars (data (progress gm)) = Some s
                     \<and> total_coins (data (progress gm'))
                         = Some (c + \<lfloor>10 * (1 + of_int ?d' * (1 / 10 :: rat))\<rfloor>)
                     \<and> total_stars (data (progress gm'))
                         = Some (s + (if 90 \<le> score then 3 else if 70 \<le> score then 2 else 1))"
      using c s c3 coins
      by (intro exI[of _ c] exI[of _ s])
         (simp only: exact_reward, simp add: gm' reward_stars_def)
    with True hd r show ?thesis
      by (intro exI[of _ ?d'] exI[of _ hist']) (simp add: gm')
  qed
qed


theorem end_game_rewards_witness:
  "current_game example_manager
     = Some \<lparr>cg_type = ''counting'', cg_start_time = 0, cg_score = 0, cg_completed = False\<rparr>
   \<and> stored_difficulty (progress example_manager) ''counting'' = Inr 5
   \<and> (\<exists>gm'. end_game example_manager True 95 None 3000000 = Inr gm'
        \<and> stored_difficulty (progress gm') ''counting'' = Inr 6
        \<and> total_coins (data (progress gm')) = Some (0 + \<lfloor>10 * (1 + of_int 6 * (1 / 10 :: rat))\<rfloor>)
        \<and> total_stars (data (progress gm')) = Some (0 + 3)
        \<and> current_game gm' = None)
   \<and> (\<exists>gm'. end_game example_manager False 100 None 3000000 = Inr gm'
        \<and> total_coins (data (progress gm')) = Some 0
        \<and> total_stars (data (progress gm')) = Some 0)"
proof -
  let ?cg = "\<lparr>cg_type = ''counting'', cg_start_time = 0, cg_score = 0, cg_completed = False\<rparr>"
  have cg: "current_game example_manager = Some ?cg"
    by (simp add: example_manager_def)
  have d: "stored_difficulty (progress example_manager) (cg_type ?cg) = Inr 5"
    using example_stored(1) by (simp add: example_manager_def)
  from example_end_game obtain gm' where
    e: "end_game example_manager True 95 None 3000000 = Inr gm'"
    and k: "stored_difficulty (progress gm') ''counting'' = Inr 6"
    by blast
  have c: "total_coins (data (progress example_manager)) = Some 0"
    "total_stars (data (progress example_manager)) = Some 0"
    by (simp_all add: example_manager_def example_progress_def example_profile_def
        default_data_def)
  from end_game_rewards[OF cg e d] k c
  have won: "stored_difficulty (progress gm') ''counting'' = Inr 6
        \<and> total_coins (data (progress gm')) = Some (0 + \<lfloor>10 * (1 + of_int 6 * (1 / 10 :: rat))\<rfloor>)
        \<and> total_stars (data (progress gm')) = Some (0 + 3)
        \<and> current_game gm' = None"
    by auto
  from example_end_game_lost obtain gl where
    l: "end_game example_manager False 100 None 3000000 = Inr gl" ..
  from end_game_rewards[OF cg l d] c
  have lost: "total_coins (data (progress gl)) = Some 0
        \<and> total_stars (data (progress gl)) = Some 0"
    by auto
  from e won have "\<exists>gm'. end_game example_manager True 95 None 3000000 = Inr gm'
        \<and> stored_difficulty (progress gm') ''counting'' = Inr 6
        \<and> total_coins (data (progress gm')) = Some (0 + \<lfloor>10 * (1 + of_int 6 * (1 / 10 :: rat))\<rfloor>)
        \<and> total_stars (data (progress gm')) = Some (0 + 3)
        \<and> current_game gm' = None"
    by blast
  moreover from l lost have "\<exists>gm'. end_game example_manager False 100 None 3000000 = Inr gm'
        \<and> total_coins (data (progress gm')) = Some 0
        \<and> total_stars (data (progress gm')) = Some 0"
    by blast
  ultimately show ?thesis
    using cg d by simp
qed

text \<open>
  Claim C1 as stated fails: the coins do not follow the difficulty the finished game was
  played at. In the sample profile \<^verbatim>\<open>counting\<close> stands at difficulty 5 after four wins; the
  fifth win is recorded first and raises the difficulty to 6, so the call awards 16
  coins, not \<open>floor (10 * (1 + 5 * 0.1)) = 15\<close>.
\<close>

theorem end_game_rewards_adjusted_difficulty:
  "stored_difficulty (progress example_manager) ''counting'' = Inr 5
   \<and> coins_awarded example_manager True 95 None 3000000 = Inr 16
   \<and> stars_awarded example_manager True 95 None 3000000 = Inr 3
   \<and> (16 :: int) \<noteq> \<lfloor>10 * (1 + 5 * (1 / 10 :: rat))\<rfloor>"
proof -
  have d: "stored_difficulty (progress example_manager) ''counting'' = Inr 5"
    using example_stored(1) by (simp add: example_manager_def)
  have c: "total_coins (data (progress example_manager)) = Some 0"
    "total_stars (data (progress example_manager)) = Some 0"
    by (simp_all add: example_manager_def example_progress_def example_profile_def
        default_data_def)
  from example_end_game obtain gm' where
    e: "end_game example_manager True 95 None 3000000 = Inr gm'"
    and t: "total_coins (data (progress gm')) = Some 16"
       "total_stars (data (progress gm')) = Some 3"
    by blast
  have ca: "coins_awarded example_manager True 95 None 3000000 = Inr 16"
    by (simp add: coins_awarded_def e t c)
  have sa: "stars_awarded example_manager True 95 None 3000000 = Inr 3"
    by (simp add: stars_awarded_def e t c)
  have "(16 :: int) \<noteq> \<lfloor>10 * (1 + 5 * (1 / 10 :: rat))\<rfloor>"
    by simp
  with d ca sa show ?thesis by simp
qed

end
